theory Spec2Isabelle
  imports Complex_Main "HOL-Library.Sublist" "HOL-Library.Monad_Syntax"
begin

section \<open>Job matching service: the embedding\<close>

text \<open>
  The functions below follow \<^verbatim>\<open>jobMatchingService.js\<close> function by function.
  JavaScript numbers are taken as exact rationals (the only fractional quantity is the
  skills ratio), strings as lists of bytes (UTF-8 for the few non-ASCII signs of the
  reason texts), and an object field that the code reads through \<^verbatim>\<open>||\<close> or
  \<^verbatim>\<open>?.\<close> as an \<open>option\<close>, \<open>None\<close> standing for a missing field.
  The fields \<^verbatim>\<open>title\<close>, \<^verbatim>\<open>type\<close> and \<^verbatim>\<open>location\<close> of a job are read
  without a guard by the code and are strings in the data model; they are plain strings here.
\<close>

subsection \<open>Strings\<close>

text \<open>\<^verbatim>\<open>String.prototype.toLowerCase\<close> on ASCII letters; other bytes are kept.\<close>

definition lowerChar :: "char \<Rightarrow> char" where
  "lowerChar c =
     (case map_of (zip ''ABCDEFGHIJKLMNOPQRSTUVWXYZ'' ''abcdefghijklmnopqrstuvwxyz'') c of
        Some d \<Rightarrow> d
      | None \<Rightarrow> c)"

definition toLowerCase :: "string \<Rightarrow> string" where
  "toLowerCase s = map lowerChar s"

text \<open>\<^verbatim>\<open>s.includes(pat)\<close>: \<open>pat\<close> occurs in \<open>s\<close> as a contiguous run; the empty
  pattern occurs in every string.\<close>

fun str_includes :: "string \<Rightarrow> string \<Rightarrow> bool" where
  "str_includes [] pat = (pat = [])"
| "str_includes (c # cs) pat = (prefix pat (c # cs) \<or> str_includes cs pat)"

text \<open>\<^verbatim>\<open>xs.join(sep)\<close>.\<close>

fun join :: "string \<Rightarrow> string list \<Rightarrow> string" where
  "join sep [] = []"
| "join sep [x] = x"
| "join sep (x # y # ys) = x @ sep @ join sep (y # ys)"

text \<open>A length inside a template literal: the decimal numeral of a natural number.\<close>

fun showNat :: "nat \<Rightarrow> string" where
  "showNat n =
     (if n < 10 then [''0123456789'' ! n]
      else showNat (n div 10) @ [''0123456789'' ! (n mod 10)])"

declare showNat.simps [simp del]

text \<open>\<^verbatim>\<open>x || ''\<close> and \<^verbatim>\<open>x || []\<close> for a field that may be missing.\<close>

definition optStr :: "string option \<Rightarrow> string" where
  "optStr x = (case x of None \<Rightarrow> [] | Some s \<Rightarrow> s)"

definition optList :: "'a list option \<Rightarrow> 'a list" where
  "optList x = (case x of None \<Rightarrow> [] | Some l \<Rightarrow> l)"

text \<open>A value inside a template literal; a missing one prints as \<^verbatim>\<open>undefined\<close>.\<close>

definition tplStr :: "string option \<Rightarrow> string" where
  "tplStr x = (case x of None \<Rightarrow> ''undefined'' | Some s \<Rightarrow> s)"

text \<open>Truthiness of a string-valued field: present and not empty.\<close>

definition truthy :: "string option \<Rightarrow> bool" where
  "truthy x = (case x of None \<Rightarrow> False | Some s \<Rightarrow> s \<noteq> [])"

text \<open>The signs that open some reason texts, as UTF-8 bytes.\<close>

definition warningSign :: string where
  "warningSign = [CHR 0xE2, CHR 0x9A, CHR 0xA0, CHR 0xEF, CHR 0xB8, CHR 0x8F]"

definition houseSign :: string where
  "houseSign = [CHR 0xF0, CHR 0x9F, CHR 0x8F, CHR 0xA0]"

definition arrowsSign :: string where
  "arrowsSign = [CHR 0xF0, CHR 0x9F, CHR 0x94, CHR 0x84]"

definition sparklesSign :: string where
  "sparklesSign = [CHR 0xE2, CHR 0x9C, CHR 0xA8]"

definition officeSign :: string where
  "officeSign = [CHR 0xF0, CHR 0x9F, CHR 0x8F, CHR 0xA2]"

subsection \<open>Numbers\<close>

text \<open>A JavaScript number that may fail to be finite. The only places where one can arise
  are the two quotients of lengths, in the skills match and in the match rate.
  \<open>jsDivide\<close> is \<^verbatim>\<open>a / b\<close> on two lengths; \<open>jsApply f\<close> is a multiplication or a
  division by a positive constant, or \<^verbatim>\<open>Math.round\<close>, which all keep NaN and
  infinity; \<open>jsMin c\<close> is \<^verbatim>\<open>Math.min(c, x)\<close>, which keeps NaN.\<close>

datatype jsNumber = Finite rat | NaN | PosInfinity

definition jsDivide :: "nat \<Rightarrow> nat \<Rightarrow> jsNumber" where
  "jsDivide a b =
     (if b = 0 then (if a = 0 then NaN else PosInfinity)
      else Finite (of_nat a / of_nat b))"

definition jsApply :: "(rat \<Rightarrow> rat) \<Rightarrow> jsNumber \<Rightarrow> jsNumber" where
  "jsApply f x = (case x of Finite r \<Rightarrow> Finite (f r) | NaN \<Rightarrow> NaN | PosInfinity \<Rightarrow> PosInfinity)"

definition jsMin :: "rat \<Rightarrow> jsNumber \<Rightarrow> jsNumber" where
  "jsMin c x = (case x of Finite r \<Rightarrow> Finite (min c r) | NaN \<Rightarrow> NaN | PosInfinity \<Rightarrow> Finite c)"

text \<open>The value of a number that is finite.\<close>

primrec finiteValue :: "jsNumber \<Rightarrow> rat" where
  "finiteValue (Finite r) = r"

subsection \<open>Data\<close>

record userProfile =
  desiredPosition :: "string option"
  jobTypes :: "string list option"
  currentLocation :: "string option"
  preferredLocations :: "string list option"
  willingToRelocate :: bool
  remotePreference :: "string option"
  primarySkills :: "string list option"
  secondarySkills :: "string list option"
  experienceLevel :: "string option"
  yearsOfExperience :: "nat option"

text \<open>\<open>job_isRemote\<close> holds iff the field \<^verbatim>\<open>isRemote\<close> is strictly \<^verbatim>\<open>true\<close>;
  \<open>job_postedDate\<close> is the time value of \<^verbatim>\<open>new Date(job.postedDate)\<close>.\<close>

record job =
  job_title :: string
  job_company :: string
  job_location :: string
  job_type :: string
  job_description :: "string option"
  job_category :: "string option"
  job_isRemote :: bool
  job_experienceLevel :: "string option"
  job_postedDate :: int

text \<open>What a sub-matcher returns: \<^verbatim>\<open>{ score, match, reason?, issue? }\<close>.\<close>

record matcherResult =
  m_score :: rat
  m_match :: bool
  m_reason :: "string option"
  m_issue :: "string option"

record skillsResult =
  s_score :: jsNumber
  s_reasons :: "string list"
  matchedSkills :: "string list"

record matchResult =
  score :: rat
  reasons :: "string list"
  issues :: "string list"
  suitable :: bool

subsection \<open>Category match\<close>

definition categoryGroups :: "(string \<times> string list) list" where
  "categoryGroups =
     [(''tech'', [''frontend'', ''backend'', ''full stack'', ''fullstack'', ''software'',
                  ''developer'', ''engineer'', ''devops'', ''mobile'', ''ios'', ''android'',
                  ''react'', ''node'', ''python'', ''java'', ''web'', ''data scientist'',
                  ''data analyst'', ''qa'', ''quality'']),
      (''design'', [''designer'', ''ux'', ''ui'', ''graphic'', ''creative'', ''illustrator'',
                    ''motion'']),
      (''finance'', [''accountant'', ''finance'', ''financial'', ''audit'', ''payroll'', ''tax'',
                     ''bookkeeper'', ''controller'']),
      (''hr'', [''hr'', ''human resource'', ''recruiter'', ''recruitment'',
                ''talent acquisition'', ''talent'']),
      (''marketing'', [''marketing'', ''seo'', ''ppc'', ''social media'', ''content marketing'',
                       ''growth'']),
      (''sales'', [''sales'', ''account manager'', ''business development'', ''bd'']),
      (''support'', [''customer support'', ''customer service'', ''help desk'',
                     ''technical support'', ''virtual assistant'']),
      (''management'', [''project manager'', ''product manager'', ''scrum master'',
                        ''team lead'', ''operations manager'', ''business analyst''])]"

definition compatibleCategories :: "(string \<times> string list) list" where
  "compatibleCategories =
     [(''tech'', [''tech'', ''design'', ''management'']),
      (''design'', [''design'', ''tech'', ''marketing'']),
      (''finance'', [''finance'']),
      (''hr'', [''hr'']),
      (''marketing'', [''marketing'', ''design'', ''sales'']),
      (''sales'', [''sales'', ''marketing'']),
      (''support'', [''support'']),
      (''management'', [''management'', ''tech''])]"

text \<open>The loop over \<^verbatim>\<open>Object.entries(categoryGroups)\<close> that stops at the first group
  with a keyword that hits.\<close>

definition findCategory :: "(string \<Rightarrow> bool) \<Rightarrow> string option" where
  "findCategory hit =
     map_option fst (find (\<lambda>(category, keywords). list_ex hit keywords) categoryGroups)"

definition calculateJobCategoryMatch :: "userProfile \<Rightarrow> job \<Rightarrow> matcherResult" where
  "calculateJobCategoryMatch p j =
     (let desired = toLowerCase (optStr (desiredPosition p));
          jts = map toLowerCase (optList (jobTypes p));
          jobTitle = toLowerCase (job_title j);
          jobType = toLowerCase (job_type j);
          jobCategory = toLowerCase (optStr (job_category j));
          userCategory = findCategory
            (\<lambda>kw. str_includes desired kw \<or> list_ex (\<lambda>jt. str_includes jt kw) jts);
          jobCategoryGroup = findCategory
            (\<lambda>kw. str_includes jobTitle kw \<or> str_includes jobType kw
                    \<or> str_includes jobCategory kw)
      in case userCategory of
           None \<Rightarrow> \<lparr>m_score = 10, m_match = True, m_reason = Some [], m_issue = None\<rparr>
         | Some uc \<Rightarrow>
            (case jobCategoryGroup of
               None \<Rightarrow> \<lparr>m_score = 10, m_match = True, m_reason = Some [], m_issue = None\<rparr>
             | Some jc \<Rightarrow>
                (let compatible =
                       (case map_of compatibleCategories uc of Some l \<Rightarrow> l | None \<Rightarrow> [uc])
                 in if jc \<in> set compatible then
                      (if uc = jc then
                         \<lparr>m_score = 20, m_match = True,
                          m_reason = Some (job_type j @ '' position matches your career path''),
                          m_issue = None\<rparr>
                       else
                         \<lparr>m_score = 10, m_match = True,
                          m_reason = Some (''Related field: '' @ job_type j),
                          m_issue = None\<rparr>)
                    else
                      \<lparr>m_score = 0, m_match = False, m_reason = None,
                       m_issue = Some (''Job category ('' @ jc
                                       @ '') doesn't match your desired field ('' @ uc @ '')'')\<rparr>)))"

subsection \<open>Location match\<close>

definition isRemoteJob :: "job \<Rightarrow> bool" where
  "isRemoteJob j =
     (let jobLocation = toLowerCase (job_location j)
      in str_includes jobLocation ''remote'' \<or> str_includes jobLocation ''hybrid''
         \<or> job_isRemote j
         \<or> (case job_description j of
               None \<Rightarrow> False
             | Some d \<Rightarrow> str_includes (toLowerCase d) ''remote''))"

definition calculateLocationMatch :: "userProfile \<Rightarrow> job \<Rightarrow> matcherResult" where
  "calculateLocationMatch p j =
     (let jobLocation = toLowerCase (job_location j);
          current = map_option toLowerCase (currentLocation p);
          preferred = map toLowerCase (optList (preferredLocations p));
          pref = remotePreference p;
          locationInPreferred = list_ex (\<lambda>loc. str_includes jobLocation loc) preferred
      in if pref = Some ''remote'' \<and> \<not> isRemoteJob j \<and> \<not> locationInPreferred then
           \<lparr>m_score = 0, m_match = False, m_reason = None,
            m_issue = Some (''Job requires on-site presence in '' @ job_location j
                            @ '', but you prefer remote work'')\<rparr>
         else if pref = Some ''onsite'' \<and> isRemoteJob j
                 \<and> \<not> str_includes jobLocation ''hybrid'' then
           \<lparr>m_score = 10, m_match = False,
            m_reason = Some ''Remote position (you prefer on-site)'', m_issue = None\<rparr>
         else if isRemoteJob j
                 \<and> (pref = Some ''remote'' \<or> pref = Some ''flexible'' \<or> pref = Some ''hybrid'') then
           \<lparr>m_score = 25, m_match = True,
            m_reason = Some (''Remote position matching your '' @ tplStr pref @ '' preference''),
            m_issue = None\<rparr>
         else if locationInPreferred then
           \<lparr>m_score = 25, m_match = True,
            m_reason = Some (''Location '' @ job_location j @ '' is in your preferred areas''),
            m_issue = None\<rparr>
         else if (case current of
                    None \<Rightarrow> False
                  | Some c \<Rightarrow> c \<noteq> [] \<and> str_includes jobLocation c) then
           \<lparr>m_score = 20, m_match = True,
            m_reason = Some (''Job is in your current city ('' @ tplStr (currentLocation p)
                             @ '')''),
            m_issue = None\<rparr>
         else if willingToRelocate p then
           \<lparr>m_score = 15, m_match = True,
            m_reason = Some (warningSign
                             @ '' Outside preferred locations, but you're open to relocation''),
            m_issue = None\<rparr>
         else
           \<lparr>m_score = 0, m_match = False, m_reason = None,
            m_issue = Some (''Job location '' @ job_location j
                            @ '' doesn't match your preferences ('' @ join '', '' preferred
                            @ '')'')\<rparr>)"

subsection \<open>Remote preference match\<close>

definition calculateRemoteMatch :: "userProfile \<Rightarrow> job \<Rightarrow> matcherResult" where
  "calculateRemoteMatch p j =
     (let pref = remotePreference p;
          jobLocation = toLowerCase (job_location j);
          jobDescription = (case job_description j of None \<Rightarrow> [] | Some d \<Rightarrow> toLowerCase d);
          remoteJob = (str_includes jobLocation ''remote'' \<or> str_includes jobLocation ''hybrid''
                       \<or> str_includes jobDescription ''remote'' \<or> job_isRemote j);
          hybridJob = (str_includes jobLocation ''hybrid'' \<or> str_includes jobDescription ''hybrid'')
      in if pref = Some ''remote'' \<and> remoteJob then
           \<lparr>m_score = 20, m_match = True,
            m_reason = Some (houseSign @ '' Fully remote position''), m_issue = None\<rparr>
         else if pref = Some ''hybrid'' \<and> (hybridJob \<or> remoteJob) then
           \<lparr>m_score = 20, m_match = True,
            m_reason = Some (arrowsSign @ '' Hybrid/flexible work arrangement''), m_issue = None\<rparr>
         else if pref = Some ''flexible'' then
           \<lparr>m_score = 15, m_match = True,
            m_reason = Some (sparklesSign @ '' Flexible with work arrangement''), m_issue = None\<rparr>
         else if pref = Some ''onsite'' \<and> \<not> remoteJob then
           \<lparr>m_score = 20, m_match = True,
            m_reason = Some (officeSign @ '' On-site position as preferred''), m_issue = None\<rparr>
         else
           \<lparr>m_score = 10, m_match = False, m_reason = None, m_issue = None\<rparr>)"

subsection \<open>Skills match\<close>

text \<open>The skills match takes \<^verbatim>\<open>String.prototype.toLowerCase\<close> as a parameter \<open>lc\<close>, so
  that what is proved of it holds for the lower-casing of the language and not only for the
  fold of ASCII letters above, which is the one the aggregate function calls it with.
  The score is a JavaScript number: the quotient is \<open>jsDivide\<close>, which is NaN at zero by
  zero.\<close>

definition jobText :: "(string \<Rightarrow> string) \<Rightarrow> job \<Rightarrow> string" where
  "jobText lc j =
     lc (job_title j) @ '' ''
     @ (case job_description j of None \<Rightarrow> [] | Some d \<Rightarrow> lc d)"

definition userSkills :: "(string \<Rightarrow> string) \<Rightarrow> userProfile \<Rightarrow> string list" where
  "userSkills lc p = map lc (optList (primarySkills p) @ optList (secondarySkills p))"

definition calculateSkillsMatch ::
    "(string \<Rightarrow> string) \<Rightarrow> userProfile \<Rightarrow> job \<Rightarrow> skillsResult" where
  "calculateSkillsMatch lc p j =
     (let matched = filter (\<lambda>skill. str_includes (jobText lc j) (lc skill)) (userSkills lc p);
          primaryMatched = filter (\<lambda>skill. str_includes (jobText lc j) (lc skill))
                             (optList (primarySkills p));
          matchPercentage =
            (if length (userSkills lc p) > 0
             then jsApply (\<lambda>x. x * 100) (jsDivide (length matched) (length (userSkills lc p)))
             else Finite 0);
          sc = jsMin 25 (jsApply (\<lambda>x. x * 25) (jsApply (\<lambda>x. x / 100) matchPercentage));
          r1 = (if length primaryMatched > 0
                then [showNat (length primaryMatched) @ '' of your primary skills match: ''
                      @ join '', '' (take 3 primaryMatched)]
                else []);
          r2 = (if length matched > length primaryMatched
                then [showNat (length matched - length primaryMatched)
                      @ '' additional skills match'']
                else [])
      in \<lparr>s_score = sc, s_reasons = r1 @ r2, matchedSkills = matched\<rparr>)"

subsection \<open>Experience level match\<close>

definition levelMap :: "(string \<times> string list) list" where
  "levelMap =
     [(''Internship'', [''junior'']),
      (''Junior'', [''junior'', ''mid'']),
      (''Mid'', [''junior'', ''mid'', ''senior'']),
      (''Senior'', [''mid'', ''senior'', ''lead'']),
      (''Lead'', [''senior'', ''lead''])]"

text \<open>\<^verbatim>\<open>levelMap[jobLevel] || ['mid', 'senior']\<close>, for the level names of the data
  model and any other text that is not a property name of every object.\<close>

definition acceptableLevels :: "string option \<Rightarrow> string list" where
  "acceptableLevels jobLevel =
     (case jobLevel of
        None \<Rightarrow> [''mid'', ''senior'']
      | Some l \<Rightarrow> (case map_of levelMap l of Some ls \<Rightarrow> ls | None \<Rightarrow> [''mid'', ''senior'']))"

definition calculateExperienceMatch :: "userProfile \<Rightarrow> job \<Rightarrow> matcherResult" where
  "calculateExperienceMatch p j =
     (let userLevel = experienceLevel p;
          jobLevel = job_experienceLevel j
      in if (case userLevel of None \<Rightarrow> False | Some u \<Rightarrow> u \<in> set (acceptableLevels jobLevel)) then
           \<lparr>m_score = 15, m_match = True,
            m_reason = Some (''Experience level matches ('' @ tplStr jobLevel
                             @ '' position, you're '' @ tplStr userLevel @ '')''),
            m_issue = None\<rparr>
         else if userLevel = Some ''senior'' \<and> jobLevel = Some ''Junior'' then
           \<lparr>m_score = 5, m_match = False,
            m_reason = Some (warningSign @ '' You may be overqualified for this '' @ tplStr jobLevel
                             @ '' position''),
            m_issue = None\<rparr>
         else if userLevel = Some ''junior'' \<and> jobLevel = Some ''Senior'' then
           \<lparr>m_score = 5, m_match = False,
            m_reason = Some (warningSign @ '' This '' @ tplStr jobLevel
                             @ '' position may require more experience''),
            m_issue = None\<rparr>
         else
           \<lparr>m_score = 10, m_match = True, m_reason = Some [], m_issue = None\<rparr>)"

subsection \<open>Job type match\<close>

definition calculateJobTypeMatch :: "userProfile \<Rightarrow> job \<Rightarrow> matcherResult" where
  "calculateJobTypeMatch p j =
     (let userJobTypes = map toLowerCase (optList (jobTypes p));
          jobType = toLowerCase (job_type j)
      in if list_ex (\<lambda>t. str_includes jobType t \<or> str_includes t jobType) userJobTypes then
           \<lparr>m_score = 10, m_match = True,
            m_reason = Some (job_type j @ '' matches your interests''), m_issue = None\<rparr>
         else if ''full stack'' \<in> set userJobTypes
                 \<and> (str_includes jobType ''frontend'' \<or> str_includes jobType ''backend'') then
           \<lparr>m_score = 8, m_match = True,
            m_reason = Some (job_type j @ '' position (you're Full Stack)''), m_issue = None\<rparr>
         else
           \<lparr>m_score = 5, m_match = False, m_reason = None, m_issue = None\<rparr>)"

subsection \<open>The aggregate score\<close>

text \<open>\<^verbatim>\<open>Math.round\<close>: the nearest integer, a half going up.\<close>

definition mathRound :: "rat \<Rightarrow> rat" where
  "mathRound x = of_int \<lfloor>x + 1 / 2\<rfloor>"

text \<open>\<^verbatim>\<open>reasons.push(m.reason)\<close> for a matcher result whose reason is set; every
  sub-matcher sets its reason when it reports a match, and the category match sets its issue
  when it reports none. The skills score is finite for every profile and job (lemma
  \<open>skills_score_finite\<close>), and the sum reads its value.\<close>

definition pushReason :: "string list \<Rightarrow> matcherResult \<Rightarrow> string list" where
  "pushReason rs m = rs @ [the (m_reason m)]"

definition calculateJobMatchScore :: "userProfile \<Rightarrow> job \<Rightarrow> matchResult" where
  "calculateJobMatchScore p j =
     (let categoryMatch = calculateJobCategoryMatch p j
      in if \<not> m_match categoryMatch then
           \<lparr>score = 0, reasons = [], issues = [the (m_issue categoryMatch)], suitable = False\<rparr>
         else
           (let score0 = m_score categoryMatch;
                reasons0 = (if truthy (m_reason categoryMatch)
                            then pushReason [] categoryMatch else []);
                locationScore = calculateLocationMatch p j;
                score1 = score0 + m_score locationScore;
                reasons1 = (if m_match locationScore
                            then pushReason reasons0 locationScore else reasons0)
            in if \<not> m_match locationScore \<and> truthy (m_issue locationScore) then
                 \<lparr>score = 0, reasons = reasons1,
                  issues = [the (m_issue locationScore)], suitable = False\<rparr>
               else
                 (let remoteScore = calculateRemoteMatch p j;
                      score2 = score1 + m_score remoteScore;
                      reasons2 = (if m_match remoteScore
                                  then pushReason reasons1 remoteScore else reasons1);
                      skillsScore = calculateSkillsMatch toLowerCase p j;
                      score3 = score2 + finiteValue (s_score skillsScore);
                      reasons3 = (if length (s_reasons skillsScore) > 0
                                  then reasons2 @ s_reasons skillsScore else reasons2);
                      experienceScore = calculateExperienceMatch p j;
                      score4 = score3 + m_score experienceScore;
                      reasons4 = (if m_match experienceScore
                                  then pushReason reasons3 experienceScore else reasons3);
                      jobTypeScore = calculateJobTypeMatch p j;
                      score5 = score4 + m_score jobTypeScore;
                      reasons5 = (if m_match jobTypeScore
                                  then pushReason reasons4 jobTypeScore else reasons4)
                  in \<lparr>score = mathRound (min 100 score5), reasons = reasons5, issues = [],
                      suitable = (score5 \<ge> 40)\<rparr>)))"

subsection \<open>Matched jobs for a profile\<close>

record matchOptions =
  minScore :: "rat option"
  maxResults :: "int option"
  sortBy :: "string option"

record scoredJob = job +
  matchScore :: rat
  matchReasons :: "string list"
  matchIssues :: "string list"
  jobSuitable :: bool

record matchedJobs =
  jobs :: "scoredJob list"
  totalMatches :: nat
  totalJobs :: nat
  matchRate :: jsNumber

text \<open>\<^verbatim>\<open>{ ...job, matchScore, matchReasons, matchIssues, suitable }\<close>.\<close>

definition withMatch :: "job \<Rightarrow> matchResult \<Rightarrow> scoredJob" where
  "withMatch j m =
     job.extend j
       (scoredJob.fields (score m) (reasons m) (issues m) (suitable m))"

text \<open>\<^verbatim>\<open>xs.slice(0, n)\<close>; a negative \<open>n\<close> counts from the end.\<close>

definition slice0 :: "int \<Rightarrow> 'a list \<Rightarrow> 'a list" where
  "slice0 n xs = take (nat (if n < 0 then int (length xs) + n else n)) xs"

text \<open>The filter \<^verbatim>\<open>job.suitable && job.matchScore >= minScore\<close>.\<close>

definition passes :: "rat \<Rightarrow> scoredJob \<Rightarrow> bool" where
  "passes ms sj = (jobSuitable sj \<and> matchScore sj \<ge> ms)"

text \<open>\<^verbatim>\<open>Array.prototype.sort\<close> is stable, and both comparators are the difference of a
  numeric key, taken in descending order: the result is the stable sort on the negated key.\<close>

definition sortJobs :: "string \<Rightarrow> scoredJob list \<Rightarrow> scoredJob list" where
  "sortJobs sb xs =
     (if sb = ''score'' then sort_key (\<lambda>sj. - matchScore sj) xs
      else sort_key (\<lambda>sj. - job_postedDate sj) xs)"

text \<open>The job collection that \<^verbatim>\<open>getAllJobs()\<close> returns is a parameter.\<close>

definition getMatchedJobs :: "userProfile \<Rightarrow> job list \<Rightarrow> matchOptions \<Rightarrow> matchedJobs" where
  "getMatchedJobs p allJobs opts =
     (let ms = (case minScore opts of None \<Rightarrow> 40 | Some v \<Rightarrow> v);
          mr = (case maxResults opts of None \<Rightarrow> 50 | Some v \<Rightarrow> v);
          sb = (case sortBy opts of None \<Rightarrow> ''score'' | Some v \<Rightarrow> v);
          jobsWithScores = map (\<lambda>j. withMatch j (calculateJobMatchScore p j)) allJobs;
          suitableJobs = filter (passes ms) jobsWithScores;
          sorted = sortJobs sb suitableJobs;
          sliced = slice0 mr sorted
      in \<lparr>jobs = sliced, totalMatches = length sliced, totalJobs = length allJobs,
          matchRate = jsApply mathRound
                        (jsApply (\<lambda>x. x * 100) (jsDivide (length sliced) (length allJobs)))\<rparr>)"

subsection \<open>The same functions over a store of objects\<close>

text \<open>
  Objects and arrays are cells of a store; a reference is the index of a cell, and a new
  object or array takes the next free index. An array of strings (the reasons, the issues,
  the matched skills) and an array of references are cells of their own, and an object
  that has such an array as a field holds the reference: \<^verbatim>\<open>push\<close> and
  \<^verbatim>\<open>sort\<close> change the cell they are called on, and two objects can share an
  array. A profile and a job are a cell each, with their fields as values: on the fields
  of these two the source only calls operations that give a new value
  (\<^verbatim>\<open>toLowerCase\<close>, \<^verbatim>\<open>includes\<close>, \<^verbatim>\<open>map\<close>, \<^verbatim>\<open>filter\<close>,
  \<^verbatim>\<open>some\<close>, \<^verbatim>\<open>slice\<close>, \<^verbatim>\<open>join\<close>, the spread). The source
  writes to an object in eleven places: seven \<^verbatim>\<open>push\<close> on the reasons and the
  issues of \<^verbatim>\<open>calculateJobMatchScore\<close>, two \<^verbatim>\<open>push\<close> on the reasons of
  \<^verbatim>\<open>calculateSkillsMatch\<close> and two \<^verbatim>\<open>sort\<close> in \<^verbatim>\<open>getMatchedJobs\<close>;
  each is an update of the store below. An access that JavaScript would not allow (a
  reference that does not lead to the kind of object needed) gives \<open>None\<close>.
\<close>

type_synonym addr = nat

record skillsRef =
  sr_score :: jsNumber
  sr_reasons :: addr
  sr_matchedSkills :: addr

record matchRef =
  mr_score :: rat
  mr_reasons :: addr
  mr_issues :: addr
  mr_suitable :: bool

record scoredRef = job +
  matchScoreRef :: rat
  matchReasonsRef :: addr
  matchIssuesRef :: addr
  suitableRef :: bool

datatype obj =
    ProfileObj userProfile
  | JobObj job
  | StringsObj "string list"
  | MatcherObj matcherResult
  | SkillsObj skillsRef
  | MatchObj matchRef
  | ScoredObj scoredRef
  | ArrayObj "addr list"

type_synonym store = "obj list"

text \<open>Reading a cell, and making a new one.\<close>

definition lookup :: "store \<Rightarrow> addr \<Rightarrow> obj option" where
  "lookup h a = (if a < length h then Some (h ! a) else None)"

definition alloc :: "store \<Rightarrow> obj \<Rightarrow> store \<times> addr" where
  "alloc h x = (h @ [x], length h)"

definition profileAt :: "store \<Rightarrow> addr \<Rightarrow> userProfile option" where
  "profileAt h a = (case lookup h a of Some (ProfileObj p) \<Rightarrow> Some p | _ \<Rightarrow> None)"

definition jobAt :: "store \<Rightarrow> addr \<Rightarrow> job option" where
  "jobAt h a = (case lookup h a of Some (JobObj j) \<Rightarrow> Some j | _ \<Rightarrow> None)"

definition stringsAt :: "store \<Rightarrow> addr \<Rightarrow> string list option" where
  "stringsAt h a = (case lookup h a of Some (StringsObj xs) \<Rightarrow> Some xs | _ \<Rightarrow> None)"

definition matcherAt :: "store \<Rightarrow> addr \<Rightarrow> matcherResult option" where
  "matcherAt h a = (case lookup h a of Some (MatcherObj m) \<Rightarrow> Some m | _ \<Rightarrow> None)"

definition skillsAt :: "store \<Rightarrow> addr \<Rightarrow> skillsRef option" where
  "skillsAt h a = (case lookup h a of Some (SkillsObj m) \<Rightarrow> Some m | _ \<Rightarrow> None)"

definition matchAt :: "store \<Rightarrow> addr \<Rightarrow> matchRef option" where
  "matchAt h a = (case lookup h a of Some (MatchObj m) \<Rightarrow> Some m | _ \<Rightarrow> None)"

definition scoredAt :: "store \<Rightarrow> addr \<Rightarrow> scoredRef option" where
  "scoredAt h a = (case lookup h a of Some (ScoredObj m) \<Rightarrow> Some m | _ \<Rightarrow> None)"

definition arrayAt :: "store \<Rightarrow> addr \<Rightarrow> addr list option" where
  "arrayAt h a = (case lookup h a of Some (ArrayObj m) \<Rightarrow> Some m | _ \<Rightarrow> None)"

text \<open>\<^verbatim>\<open>xs.push(s)\<close> and \<^verbatim>\<open>xs.push(...ss)\<close> on the array at \<open>a\<close>.\<close>

definition push :: "store \<Rightarrow> addr \<Rightarrow> string \<Rightarrow> store option" where
  "push h a s = do { xs \<leftarrow> stringsAt h a; Some (h[a := StringsObj (xs @ [s])]) }"

fun pushAll :: "store \<Rightarrow> addr \<Rightarrow> string list \<Rightarrow> store option" where
  "pushAll h a [] = Some h"
| "pushAll h a (s # ss) = do { h1 \<leftarrow> push h a s; pushAll h1 a ss }"

text \<open>\<^verbatim>\<open>if (m.match) reasons.push(m.reason)\<close>,
  \<^verbatim>\<open>if (m.reason) reasons.push(m.reason)\<close> and
  \<^verbatim>\<open>if (xs.length > 0) reasons.push(...xs)\<close>.\<close>

definition pushReasonIf :: "store \<Rightarrow> addr \<Rightarrow> matcherResult \<Rightarrow> store option" where
  "pushReasonIf h a m = (if m_match m then push h a (the (m_reason m)) else Some h)"

definition pushReasonIfSet :: "store \<Rightarrow> addr \<Rightarrow> matcherResult \<Rightarrow> store option" where
  "pushReasonIfSet h a m = (if truthy (m_reason m) then push h a (the (m_reason m)) else Some h)"

definition pushAllIfAny :: "store \<Rightarrow> addr \<Rightarrow> string list \<Rightarrow> store option" where
  "pushAllIfAny h a xs = (if length xs > 0 then pushAll h a xs else Some h)"

text \<open>A call of one of the five sub-matchers that return
  \<^verbatim>\<open>{ score, match, reason, issue }\<close>: it reads its two arguments and returns a new
  object.\<close>

definition callMatcher ::
    "(userProfile \<Rightarrow> job \<Rightarrow> matcherResult) \<Rightarrow> store \<Rightarrow> addr \<Rightarrow> addr \<Rightarrow> (store \<times> addr) option" where
  "callMatcher f h pa ja =
     do { p \<leftarrow> profileAt h pa; j \<leftarrow> jobAt h ja; Some (alloc h (MatcherObj (f p j))) }"

text \<open>\<^verbatim>\<open>calculateSkillsMatch\<close>: the array \<^verbatim>\<open>matchedSkills\<close> that
  \<^verbatim>\<open>filter\<close> made, the array \<^verbatim>\<open>reasons\<close> that starts empty and is pushed to,
  and the result object with references to both.\<close>

definition calculateSkillsMatch_store ::
    "(string \<Rightarrow> string) \<Rightarrow> store \<Rightarrow> addr \<Rightarrow> addr \<Rightarrow> (store \<times> addr) option" where
  "calculateSkillsMatch_store lc h pa ja =
     do { p \<leftarrow> profileAt h pa;
          j \<leftarrow> jobAt h ja;
          let r = calculateSkillsMatch lc p j;
          let (h1, matched) = alloc h (StringsObj (matchedSkills r));
          let (h2, reasonsRef) = alloc h1 (StringsObj []);
          h3 \<leftarrow> pushAll h2 reasonsRef (s_reasons r);
          Some (alloc h3 (SkillsObj \<lparr>sr_score = s_score r, sr_reasons = reasonsRef,
                                    sr_matchedSkills = matched\<rparr>)) }"

text \<open>\<^verbatim>\<open>calculateJobMatchScore(userProfile, job)\<close> on two references. The part after
  the two hard filters comes first; \<open>score1\<close> is the sum so far.\<close>

definition scoreRest ::
    "store \<Rightarrow> addr \<Rightarrow> addr \<Rightarrow> addr \<Rightarrow> addr \<Rightarrow> rat \<Rightarrow> (store \<times> addr) option" where
  "scoreRest h pa ja reasonsRef issuesRef score1 =
     do { (h1, ra) \<leftarrow> callMatcher calculateRemoteMatch h pa ja;
          remoteScore \<leftarrow> matcherAt h1 ra;
          h2 \<leftarrow> pushReasonIf h1 reasonsRef remoteScore;
          (h3, sa) \<leftarrow> calculateSkillsMatch_store toLowerCase h2 pa ja;
          skillsScore \<leftarrow> skillsAt h3 sa;
          skillsReasons \<leftarrow> stringsAt h3 (sr_reasons skillsScore);
          h4 \<leftarrow> pushAllIfAny h3 reasonsRef skillsReasons;
          (h5, ea) \<leftarrow> callMatcher calculateExperienceMatch h4 pa ja;
          experienceScore \<leftarrow> matcherAt h5 ea;
          h6 \<leftarrow> pushReasonIf h5 reasonsRef experienceScore;
          (h7, ta) \<leftarrow> callMatcher calculateJobTypeMatch h6 pa ja;
          jobTypeScore \<leftarrow> matcherAt h7 ta;
          h8 \<leftarrow> pushReasonIf h7 reasonsRef jobTypeScore;
          let score5 = score1 + m_score remoteScore + finiteValue (sr_score skillsScore)
                       + m_score experienceScore + m_score jobTypeScore;
          Some (alloc h8 (MatchObj \<lparr>mr_score = mathRound (min 100 score5),
                                   mr_reasons = reasonsRef, mr_issues = issuesRef,
                                   mr_suitable = (score5 \<ge> 40)\<rparr>)) }"

text \<open>The two arrays \<^verbatim>\<open>reasons\<close> and \<^verbatim>\<open>issues\<close> are made first. The category
  filter returns a new array with its one issue, the location filter pushes its issue on
  \<^verbatim>\<open>issues\<close>; both return the reference to \<^verbatim>\<open>reasons\<close>.\<close>

definition calculateJobMatchScore_store ::
    "store \<Rightarrow> addr \<Rightarrow> addr \<Rightarrow> (store \<times> addr) option" where
  "calculateJobMatchScore_store h pa ja =
     do { let (h1, reasonsRef) = alloc h (StringsObj []);
          let (h2, issuesRef) = alloc h1 (StringsObj []);
          (h3, ca) \<leftarrow> callMatcher calculateJobCategoryMatch h2 pa ja;
          categoryMatch \<leftarrow> matcherAt h3 ca;
          if \<not> m_match categoryMatch then
            do { let (h4, issuesRef') = alloc h3 (StringsObj [the (m_issue categoryMatch)]);
                 Some (alloc h4 (MatchObj \<lparr>mr_score = 0, mr_reasons = reasonsRef,
                                          mr_issues = issuesRef', mr_suitable = False\<rparr>)) }
          else
            do { h4 \<leftarrow> pushReasonIfSet h3 reasonsRef categoryMatch;
                 (h5, la) \<leftarrow> callMatcher calculateLocationMatch h4 pa ja;
                 locationScore \<leftarrow> matcherAt h5 la;
                 if m_match locationScore then
                   do { h6 \<leftarrow> push h5 reasonsRef (the (m_reason locationScore));
                        scoreRest h6 pa ja reasonsRef issuesRef
                          (m_score categoryMatch + m_score locationScore) }
                 else if truthy (m_issue locationScore) then
                   do { h6 \<leftarrow> push h5 issuesRef (the (m_issue locationScore));
                        Some (alloc h6 (MatchObj \<lparr>mr_score = 0, mr_reasons = reasonsRef,
                                                 mr_issues = issuesRef, mr_suitable = False\<rparr>)) }
                 else
                   scoreRest h5 pa ja reasonsRef issuesRef
                     (m_score categoryMatch + m_score locationScore) } }"

text \<open>The callback of \<^verbatim>\<open>allJobs.map\<close>: the spread copies the fields of the job into a
  new object, and the four match fields are set from the result of the call; the reasons
  and issues of the new object are the references that the result holds.\<close>

definition scoreJob :: "store \<Rightarrow> addr \<Rightarrow> addr \<Rightarrow> (store \<times> addr) option" where
  "scoreJob h pa a =
     do { (h1, ma) \<leftarrow> calculateJobMatchScore_store h pa a;
          m \<leftarrow> matchAt h1 ma;
          j \<leftarrow> jobAt h1 a;
          Some (alloc h1 (ScoredObj
            \<lparr>job_title = job_title j, job_company = job_company j,
             job_location = job_location j, job_type = job_type j,
             job_description = job_description j, job_category = job_category j,
             job_isRemote = job_isRemote j, job_experienceLevel = job_experienceLevel j,
             job_postedDate = job_postedDate j,
             matchScoreRef = mr_score m, matchReasonsRef = mr_reasons m,
             matchIssuesRef = mr_issues m, suitableRef = mr_suitable m\<rparr>)) }"

fun mapScores :: "store \<Rightarrow> addr \<Rightarrow> addr list \<Rightarrow> (store \<times> addr list) option" where
  "mapScores h pa [] = Some (h, [])"
| "mapScores h pa (a # as) =
     do { (h1, c) \<leftarrow> scoreJob h pa a;
          (h2, cs) \<leftarrow> mapScores h1 pa as;
          Some (h2, c # cs) }"

text \<open>The filter and the two sort keys read the objects that the references lead to.\<close>

definition passesAt :: "store \<Rightarrow> rat \<Rightarrow> addr \<Rightarrow> bool" where
  "passesAt h ms c =
     (case scoredAt h c of Some sj \<Rightarrow> suitableRef sj \<and> matchScoreRef sj \<ge> ms | None \<Rightarrow> False)"

definition matchScoreAt :: "store \<Rightarrow> addr \<Rightarrow> rat" where
  "matchScoreAt h c = (case scoredAt h c of Some sj \<Rightarrow> matchScoreRef sj | None \<Rightarrow> 0)"

definition postedDateAt :: "store \<Rightarrow> addr \<Rightarrow> int" where
  "postedDateAt h c = (case scoredAt h c of Some sj \<Rightarrow> job_postedDate sj | None \<Rightarrow> 0)"

definition sortRefs :: "store \<Rightarrow> string \<Rightarrow> addr list \<Rightarrow> addr list" where
  "sortRefs h sb cs =
     (if sb = ''score'' then sort_key (\<lambda>c. - matchScoreAt h c) cs
      else sort_key (\<lambda>c. - postedDateAt h c) cs)"

record matchedJobsRef =
  jobsRef :: addr
  totalMatchesRef :: nat
  totalJobsRef :: nat
  matchRateRef :: jsNumber

text \<open>\<open>pa\<close> refers to the profile and \<open>ja\<close> to the array that \<^verbatim>\<open>getAllJobs()\<close>
  returned. \<^verbatim>\<open>map\<close>, \<^verbatim>\<open>filter\<close> and \<^verbatim>\<open>slice\<close> make a new array each;
  \<^verbatim>\<open>sort\<close> reorders the array it is called on, in place, and that array is the one
  that \<^verbatim>\<open>filter\<close> made.\<close>

definition getMatchedJobs_store ::
    "store \<Rightarrow> addr \<Rightarrow> addr \<Rightarrow> matchOptions \<Rightarrow> (store \<times> matchedJobsRef) option" where
  "getMatchedJobs_store h pa ja opts =
     do { let ms = (case minScore opts of None \<Rightarrow> 40 | Some v \<Rightarrow> v);
          let mr = (case maxResults opts of None \<Rightarrow> 50 | Some v \<Rightarrow> v);
          let sb = (case sortBy opts of None \<Rightarrow> ''score'' | Some v \<Rightarrow> v);
          allJobs \<leftarrow> arrayAt h ja;
          (h1, cs) \<leftarrow> mapScores h pa allJobs;
          let (h2, jobsWithScores) = alloc h1 (ArrayObj cs);
          mapped \<leftarrow> arrayAt h2 jobsWithScores;
          let (h3, suitableJobs) = alloc h2 (ArrayObj (filter (passesAt h2 ms) mapped));
          kept \<leftarrow> arrayAt h3 suitableJobs;
          let h4 = h3[suitableJobs := ArrayObj (sortRefs h3 sb kept)];
          ordered \<leftarrow> arrayAt h4 suitableJobs;
          let (h5, sliced) = alloc h4 (ArrayObj (slice0 mr ordered));
          result \<leftarrow> arrayAt h5 sliced;
          Some (h5, \<lparr>jobsRef = sliced, totalMatchesRef = length result,
                     totalJobsRef = length allJobs,
                     matchRateRef = jsApply mathRound
                       (jsApply (\<lambda>x. x * 100) (jsDivide (length result) (length allJobs)))\<rparr>) }"

subsection \<open>Notions used to state the properties of the store\<close>

text \<open>A store extends another when every cell of the other is still there, unchanged.\<close>

definition unchanged :: "store \<Rightarrow> store \<Rightarrow> bool" where
  "unchanged h h' = list_all (\<lambda>a. lookup h' a = lookup h a) [0..<length h]"

text \<open>The store is well formed for a call: \<open>pa\<close> refers to the profile \<open>p\<close> and \<open>ja\<close>
  to an array \<open>as\<close> of references to jobs.\<close>

definition wellFormed :: "store \<Rightarrow> addr \<Rightarrow> userProfile \<Rightarrow> addr \<Rightarrow> addr list \<Rightarrow> bool" where
  "wellFormed h pa p ja as =
     (profileAt h pa = Some p \<and> arrayAt h ja = Some as
      \<and> list_all (\<lambda>a. case jobAt h a of Some j \<Rightarrow> True | None \<Rightarrow> False) as)"

text \<open>The result object at \<open>ma\<close> of a store \<open>h'\<close> holds the match result \<open>r\<close>: its score
  and suitability, and references to two arrays with the reasons and the issues of \<open>r\<close>.
  The object and the two arrays are not cells of the store \<open>h\<close>.\<close>

definition matchStored :: "store \<Rightarrow> store \<Rightarrow> addr \<Rightarrow> matchResult \<Rightarrow> bool" where
  "matchStored h h' ma r =
     (length h \<le> ma \<and>
      (case matchAt h' ma of
         None \<Rightarrow> False
       | Some m \<Rightarrow> mr_score m = score r \<and> mr_suitable m = suitable r
           \<and> length h \<le> mr_reasons m \<and> length h \<le> mr_issues m
           \<and> stringsAt h' (mr_reasons m) = Some (reasons r)
           \<and> stringsAt h' (mr_issues m) = Some (issues r)))"

text \<open>The object at \<open>c\<close> of a store \<open>h'\<close> has every field of the job \<open>j\<close> with the value it
  has in \<open>j\<close>, and the four match fields of the match result \<open>r\<close>.\<close>

definition copyOfJob :: "store \<Rightarrow> addr \<Rightarrow> job \<Rightarrow> matchResult \<Rightarrow> bool" where
  "copyOfJob h' c j r =
     (case scoredAt h' c of
        None \<Rightarrow> False
      | Some sj \<Rightarrow>
          job_title sj = job_title j \<and> job_company sj = job_company j
          \<and> job_location sj = job_location j \<and> job_type sj = job_type j
          \<and> job_description sj = job_description j \<and> job_category sj = job_category j
          \<and> job_isRemote sj = job_isRemote j
          \<and> job_experienceLevel sj = job_experienceLevel j
          \<and> job_postedDate sj = job_postedDate j
          \<and> matchScoreRef sj = score r \<and> suitableRef sj = suitable r
          \<and> stringsAt h' (matchReasonsRef sj) = Some (reasons r)
          \<and> stringsAt h' (matchIssuesRef sj) = Some (issues r))"

text \<open>The object at \<open>c\<close> and the two arrays it refers to are not cells of the store \<open>h\<close>.\<close>

definition freshCopy :: "store \<Rightarrow> store \<Rightarrow> addr \<Rightarrow> bool" where
  "freshCopy h h' c =
     (length h \<le> c \<and>
      (case scoredAt h' c of
         None \<Rightarrow> False
       | Some sj \<Rightarrow> length h \<le> matchReasonsRef sj \<and> length h \<le> matchIssuesRef sj))"

text \<open>The jobs that an array of the store refers to.\<close>

definition readJobs :: "store \<Rightarrow> addr list \<Rightarrow> job list" where
  "readJobs h as = List.map_filter (jobAt h) as"

text \<open>The scored job that a reference leads to, with the reasons and the issues read from
  the arrays it refers to.\<close>

definition scoredJobAt :: "store \<Rightarrow> addr \<Rightarrow> scoredJob option" where
  "scoredJobAt h c =
     do { sj \<leftarrow> scoredAt h c;
          rs \<leftarrow> stringsAt h (matchReasonsRef sj);
          is \<leftarrow> stringsAt h (matchIssuesRef sj);
          Some \<lparr>job_title = job_title sj, job_company = job_company sj,
                job_location = job_location sj, job_type = job_type sj,
                job_description = job_description sj, job_category = job_category sj,
                job_isRemote = job_isRemote sj, job_experienceLevel = job_experienceLevel sj,
                job_postedDate = job_postedDate sj,
                matchScore = matchScoreRef sj, matchReasons = rs, matchIssues = is,
                jobSuitable = suitableRef sj\<rparr> }"

text \<open>A store \<open>h\<close> followed by the cells \<open>cs\<close> made since, and the address of the
  \<open>k\<close>-th of them; whether a cell is an array of strings, and its strings; the reason
  of a sub-matcher result when there is one that is not empty.\<close>

definition cells :: "store \<Rightarrow> obj list \<Rightarrow> store" where
  "cells h cs = h @ cs"

definition addrOf :: "store \<Rightarrow> nat \<Rightarrow> addr" where
  "addrOf h k = length h + k"

primrec isStrings :: "obj \<Rightarrow> bool" where
  "isStrings (ProfileObj p) = False"
| "isStrings (JobObj j) = False"
| "isStrings (StringsObj xs) = True"
| "isStrings (MatcherObj m) = False"
| "isStrings (SkillsObj m) = False"
| "isStrings (MatchObj m) = False"
| "isStrings (ScoredObj m) = False"
| "isStrings (ArrayObj m) = False"

primrec stringsOf :: "obj \<Rightarrow> string list" where
  "stringsOf (ProfileObj p) = []"
| "stringsOf (JobObj j) = []"
| "stringsOf (StringsObj xs) = xs"
| "stringsOf (MatcherObj m) = []"
| "stringsOf (SkillsObj m) = []"
| "stringsOf (MatchObj m) = []"
| "stringsOf (ScoredObj m) = []"
| "stringsOf (ArrayObj m) = []"

definition reasonIfSet :: "matcherResult \<Rightarrow> string list" where
  "reasonIfSet m = (if truthy (m_reason m) then [the (m_reason m)] else [])"

subsection \<open>Notions used to state the properties\<close>

text \<open>The sum of the six component scores, as the aggregate function accumulates it.\<close>

definition componentSum :: "userProfile \<Rightarrow> job \<Rightarrow> rat" where
  "componentSum p j =
     m_score (calculateJobCategoryMatch p j) + m_score (calculateLocationMatch p j)
     + m_score (calculateRemoteMatch p j)
     + finiteValue (s_score (calculateSkillsMatch toLowerCase p j))
     + m_score (calculateExperienceMatch p j) + m_score (calculateJobTypeMatch p j)"

text \<open>What the category match contributes to the reasons: its reason when it is not empty.\<close>

definition categoryReasons :: "userProfile \<Rightarrow> job \<Rightarrow> string list" where
  "categoryReasons p j =
     (case m_reason (calculateJobCategoryMatch p j) of
        None \<Rightarrow> []
      | Some s \<Rightarrow> if s = [] then [] else [s])"


text \<open>The cautionary reason texts: the two of the experience match and the one of the
  on-site soft mismatch of the location match.\<close>

definition cautionReasons :: "string set" where
  "cautionReasons =
     {warningSign @ '' You may be overqualified for this Junior position'',
      warningSign @ '' This Senior position may require more experience'',
      ''Remote position (you prefer on-site)''}"

text \<open>The reasons of a result that passed both hard filters, matcher by matcher.\<close>

definition reasonIfMatch :: "matcherResult \<Rightarrow> string list" where
  "reasonIfMatch m = (if m_match m then [the (m_reason m)] else [])"

subsection \<open>Sample profiles and jobs\<close>

definition profileA :: userProfile where
  "profileA = \<lparr>desiredPosition = Some ''Frontend Developer'', jobTypes = Some [''Frontend''],
     currentLocation = Some ''Bratislava, Slovakia'',
     preferredLocations = Some [''Bratislava, Slovakia''], willingToRelocate = False,
     remotePreference = Some ''flexible'', primarySkills = Some [''React'', ''JavaScript''],
     secondarySkills = None, experienceLevel = Some ''mid'', yearsOfExperience = None\<rparr>"

definition jobA :: job where
  "jobA = \<lparr>job_title = ''Frontend Developer (React)'', job_company = ''Acme'',
     job_location = ''Bratislava, Slovakia'', job_type = ''Frontend'',
     job_description = Some ''React, JavaScript, HTML, CSS'', job_category = None,
     job_isRemote = False, job_experienceLevel = Some ''Mid'', job_postedDate = 0\<rparr>"

definition jobB :: job where
  "jobB = \<lparr>job_title = ''Payroll Specialist'', job_company = ''Acme'',
     job_location = ''Bratislava, Slovakia'', job_type = ''Finance'',
     job_description = None, job_category = None,
     job_isRemote = False, job_experienceLevel = None, job_postedDate = 0\<rparr>"

definition profileC :: userProfile where
  "profileC = \<lparr>desiredPosition = None, jobTypes = None, currentLocation = None,
     preferredLocations = Some [], willingToRelocate = False,
     remotePreference = Some ''remote'', primarySkills = None,
     secondarySkills = None, experienceLevel = None, yearsOfExperience = None\<rparr>"

definition jobC :: job where
  "jobC = \<lparr>job_title = ''Baker'', job_company = ''Acme'',
     job_location = ''Vienna'', job_type = ''Food'',
     job_description = None, job_category = None,
     job_isRemote = False, job_experienceLevel = None, job_postedDate = 0\<rparr>"

definition profileOnsite :: userProfile where
  "profileOnsite = \<lparr>desiredPosition = None, jobTypes = None, currentLocation = None,
     preferredLocations = None, willingToRelocate = False,
     remotePreference = Some ''onsite'', primarySkills = None,
     secondarySkills = None, experienceLevel = None, yearsOfExperience = None\<rparr>"

definition jobRemote :: job where
  "jobRemote = \<lparr>job_title = ''Baker'', job_company = ''Acme'',
     job_location = ''Remote'', job_type = ''Food'',
     job_description = None, job_category = None,
     job_isRemote = False, job_experienceLevel = None, job_postedDate = 0\<rparr>"

definition profileSenior :: userProfile where
  "profileSenior = \<lparr>desiredPosition = None, jobTypes = None, currentLocation = None,
     preferredLocations = None, willingToRelocate = True,
     remotePreference = None, primarySkills = None,
     secondarySkills = None, experienceLevel = Some ''senior'', yearsOfExperience = None\<rparr>"

definition jobJunior :: job where
  "jobJunior = \<lparr>job_title = ''Baker'', job_company = ''Acme'',
     job_location = ''Vienna'', job_type = ''Food'',
     job_description = None, job_category = None,
     job_isRemote = False, job_experienceLevel = Some ''Junior'', job_postedDate = 0\<rparr>"

definition jobCook :: job where
  "jobCook = \<lparr>job_title = ''Cook'', job_company = ''Acme'',
     job_location = ''Remote'', job_type = ''Food'',
     job_description = None, job_category = None,
     job_isRemote = False, job_experienceLevel = None, job_postedDate = 1\<rparr>"

definition profileCase :: userProfile where
  "profileCase = \<lparr>desiredPosition = None, jobTypes = None, currentLocation = None,
     preferredLocations = None, willingToRelocate = False,
     remotePreference = None, primarySkills = Some [''REACT''],
     secondarySkills = Some [''Cobol''], experienceLevel = None, yearsOfExperience = None\<rparr>"

definition jobCase :: job where
  "jobCase = \<lparr>job_title = ''React Developer'', job_company = ''Acme'',
     job_location = ''Vienna'', job_type = ''Frontend'',
     job_description = Some ''We use JavaScript'', job_category = None,
     job_isRemote = False, job_experienceLevel = None, job_postedDate = 0\<rparr>"

definition optsOne :: matchOptions where
  "optsOne = \<lparr>minScore = None, maxResults = Some 1, sortBy = None\<rparr>"

text \<open>A store with a profile, two jobs and the array of the two jobs.\<close>

definition storeA :: store where
  "storeA = [ProfileObj profileA, JobObj jobA, JobObj jobB, ArrayObj [1, 2]]"

section \<open>Properties\<close>

subsection \<open>The sub-matchers\<close>

lemma category_cases:
  "(m_match (calculateJobCategoryMatch p j)
      \<and> m_score (calculateJobCategoryMatch p j) \<in> {10, 20}
      \<and> m_issue (calculateJobCategoryMatch p j) = None
      \<and> m_reason (calculateJobCategoryMatch p j) \<noteq> None)
   \<or> (\<not> m_match (calculateJobCategoryMatch p j)
      \<and> m_score (calculateJobCategoryMatch p j) = 0
      \<and> m_issue (calculateJobCategoryMatch p j) \<noteq> None
      \<and> m_reason (calculateJobCategoryMatch p j) = None)"
  by (simp add: calculateJobCategoryMatch_def Let_def split: option.split)

lemma location_cases:
  "(m_match (calculateLocationMatch p j)
      \<and> m_score (calculateLocationMatch p j) \<in> {15, 20, 25}
      \<and> m_issue (calculateLocationMatch p j) = None
      \<and> m_reason (calculateLocationMatch p j) \<noteq> None)
   \<or> (\<not> m_match (calculateLocationMatch p j)
      \<and> m_score (calculateLocationMatch p j) = 10
      \<and> m_issue (calculateLocationMatch p j) = None
      \<and> m_reason (calculateLocationMatch p j) = Some ''Remote position (you prefer on-site)'')
   \<or> (\<not> m_match (calculateLocationMatch p j)
      \<and> m_score (calculateLocationMatch p j) = 0
      \<and> truthy (m_issue (calculateLocationMatch p j))
      \<and> m_reason (calculateLocationMatch p j) = None)"
  by (simp add: calculateLocationMatch_def Let_def truthy_def)

lemma remote_score: "m_score (calculateRemoteMatch p j) \<in> {10, 15, 20}"
  by (simp add: calculateRemoteMatch_def Let_def)

lemma experience_score: "m_score (calculateExperienceMatch p j) \<in> {5, 10, 15}"
  by (simp add: calculateExperienceMatch_def Let_def)

lemma jobType_score: "m_score (calculateJobTypeMatch p j) \<in> {5, 8, 10}"
  by (simp add: calculateJobTypeMatch_def Let_def)

lemma skills_score_eq:
  "s_score (calculateSkillsMatch lc p j) =
     (if length (userSkills lc p) = 0 then Finite 0
      else Finite (min 25 (of_nat (length (filter (\<lambda>skill. str_includes (jobText lc j) (lc skill))
                                              (userSkills lc p)))
                           / of_nat (length (userSkills lc p)) * 25)))"
proof -
  have arith: "\<And>a b :: rat. a / b * 100 / 100 * 25 = a / b * 25" by simp
  show ?thesis
    unfolding calculateSkillsMatch_def Let_def
    by (simp add: jsDivide_def jsApply_def jsMin_def arith del: times_divide_eq_left)
qed

lemma skills_score_finite:
  "\<exists>r. s_score (calculateSkillsMatch lc p j) = Finite r \<and> 0 \<le> r \<and> r \<le> 25"
  unfolding skills_score_eq by simp

lemma skills_score_bounds:
  "0 \<le> finiteValue (s_score (calculateSkillsMatch toLowerCase p j))
   \<and> finiteValue (s_score (calculateSkillsMatch toLowerCase p j)) \<le> 25"
  using skills_score_finite[of toLowerCase p j] by auto

lemma score_category_reject:
  assumes "\<not> m_match (calculateJobCategoryMatch p j)"
  shows "calculateJobMatchScore p j =
           \<lparr>score = 0, reasons = [],
            issues = [the (m_issue (calculateJobCategoryMatch p j))], suitable = False\<rparr>"
  using assms by (simp add: calculateJobMatchScore_def Let_def)

lemma score_location_reject:
  assumes "m_match (calculateJobCategoryMatch p j)"
    and "\<not> m_match (calculateLocationMatch p j)"
    and "truthy (m_issue (calculateLocationMatch p j))"
  shows "calculateJobMatchScore p j =
           \<lparr>score = 0, reasons = categoryReasons p j,
            issues = [the (m_issue (calculateLocationMatch p j))], suitable = False\<rparr>"
  using assms
  by (simp add: calculateJobMatchScore_def Let_def truthy_def categoryReasons_def pushReason_def split: option.split)

lemma score_pass_fields:
  assumes "m_match (calculateJobCategoryMatch p j)"
    and "m_match (calculateLocationMatch p j) \<or> \<not> truthy (m_issue (calculateLocationMatch p j))"
  shows "score (calculateJobMatchScore p j) = mathRound (min 100 (componentSum p j))"
    and "issues (calculateJobMatchScore p j) = []"
    and "suitable (calculateJobMatchScore p j) = (componentSum p j \<ge> 40)"
  using assms
  by (auto simp add: calculateJobMatchScore_def Let_def componentSum_def)

lemma componentSum_pass_bounds:
  assumes "m_match (calculateJobCategoryMatch p j)"
    and "m_match (calculateLocationMatch p j) \<or> \<not> truthy (m_issue (calculateLocationMatch p j))"
  shows "40 \<le> componentSum p j \<and> componentSum p j \<le> 115"
proof -
  have "m_score (calculateJobCategoryMatch p j) \<in> {10, 20}"
    using assms(1) category_cases[of p j] by blast
  then have c: "10 \<le> m_score (calculateJobCategoryMatch p j)
                \<and> m_score (calculateJobCategoryMatch p j) \<le> 20"
    by auto
  have "m_score (calculateLocationMatch p j) \<in> {10, 15, 20, 25}"
    using assms(2) location_cases[of p j] by auto
  then have l: "10 \<le> m_score (calculateLocationMatch p j)
                \<and> m_score (calculateLocationMatch p j) \<le> 25"
    by auto
  have r: "10 \<le> m_score (calculateRemoteMatch p j) \<and> m_score (calculateRemoteMatch p j) \<le> 20"
    using remote_score[of p j] by auto
  have e: "5 \<le> m_score (calculateExperienceMatch p j)
           \<and> m_score (calculateExperienceMatch p j) \<le> 15"
    using experience_score[of p j] by auto
  have t: "5 \<le> m_score (calculateJobTypeMatch p j) \<and> m_score (calculateJobTypeMatch p j) \<le> 10"
    using jobType_score[of p j] by auto
  show ?thesis
    using c l r e t skills_score_bounds[of p j]
    unfolding componentSum_def by linarith
qed

lemma mathRound_ge: "of_int k \<le> x \<Longrightarrow> of_int k \<le> mathRound x"
  unfolding mathRound_def by (simp add: le_floor_iff)

lemma mathRound_le: 
  assumes "x \<le> of_int k" shows "mathRound x \<le> of_int k"
proof -
  have "\<lfloor>x + 1 / 2\<rfloor> \<le> \<lfloor>of_int k + (1 / 2 :: rat)\<rfloor>"
    using assms by (intro floor_mono) simp
  also have "\<dots> = k" by linarith
  finally show ?thesis by (simp add: mathRound_def)
qed


lemma mathRound_range:
  assumes "0 \<le> x"
  shows "\<exists>k::int. mathRound (min 100 x) = of_int k \<and> 0 \<le> k \<and> k \<le> 100"
proof -
  let ?k = "\<lfloor>min 100 x + 1 / 2\<rfloor>"
  have "of_int 0 \<le> mathRound (min 100 x)"
    using assms by (intro mathRound_ge) simp
  then have lo: "0 \<le> ?k" by (simp add: mathRound_def)
  have "mathRound (min 100 x) \<le> of_int 100"
    by (intro mathRound_le) simp
  then have hi: "?k \<le> 100" by (simp only: mathRound_def of_int_le_iff)
  have "mathRound (min 100 x) = of_int ?k" by (simp add: mathRound_def)
  with lo hi show ?thesis by (intro exI[of _ ?k]) simp
qed


subsection \<open>The sample inputs, evaluated\<close>

lemma mathRound_of_int: "mathRound (of_int k) = of_int k"
proof -
  have "\<lfloor>of_int k + (1 / 2 :: rat)\<rfloor> = k" by linarith
  then show ?thesis by (simp add: mathRound_def)
qed

lemma mathRound_numeral: "mathRound (numeral n) = numeral n"
  using mathRound_of_int[of "numeral n"] by simp

lemma category_A_A:
  "calculateJobCategoryMatch profileA jobA =
     \<lparr>m_score = 20, m_match = True,
      m_reason = Some ''Frontend position matches your career path'', m_issue = None\<rparr>"
  by code_simp

lemma category_A_B:
  "calculateJobCategoryMatch profileA jobB =
     \<lparr>m_score = 0, m_match = False, m_reason = None,
      m_issue = Some ''Job category (finance) doesn't match your desired field (tech)''\<rparr>"
  by code_simp

lemma category_C_C:
  "calculateJobCategoryMatch profileC jobC =
     \<lparr>m_score = 10, m_match = True, m_reason = Some [], m_issue = None\<rparr>"
  by code_simp

lemma location_C_C:
  "calculateLocationMatch profileC jobC =
     \<lparr>m_score = 0, m_match = False, m_reason = None,
      m_issue = Some ''Job requires on-site presence in Vienna, but you prefer remote work''\<rparr>"
  by code_simp

lemma category_O_R:
  "calculateJobCategoryMatch profileOnsite jobRemote =
     \<lparr>m_score = 10, m_match = True, m_reason = Some [], m_issue = None\<rparr>"
  by code_simp

lemma location_O_R:
  "calculateLocationMatch profileOnsite jobRemote =
     \<lparr>m_score = 10, m_match = False, m_reason = Some ''Remote position (you prefer on-site)'',
      m_issue = None\<rparr>"
  by code_simp

lemma remote_O_R:
  "calculateRemoteMatch profileOnsite jobRemote =
     \<lparr>m_score = 10, m_match = False, m_reason = None, m_issue = None\<rparr>"
  by code_simp

lemma skills_O_R:
  "calculateSkillsMatch toLowerCase profileOnsite jobRemote =
     \<lparr>s_score = Finite 0, s_reasons = [], matchedSkills = []\<rparr>"
  by code_simp

lemma experience_O_R:
  "calculateExperienceMatch profileOnsite jobRemote =
     \<lparr>m_score = 10, m_match = True, m_reason = Some [], m_issue = None\<rparr>"
  by code_simp

lemma jobType_O_R:
  "calculateJobTypeMatch profileOnsite jobRemote =
     \<lparr>m_score = 5, m_match = False, m_reason = None, m_issue = None\<rparr>"
  by code_simp

lemma score_O_R:
  "calculateJobMatchScore profileOnsite jobRemote =
     \<lparr>score = 45, reasons = [[]], issues = [], suitable = True\<rparr>"
  by (simp add: calculateJobMatchScore_def Let_def category_O_R location_O_R remote_O_R
      skills_O_R experience_O_R jobType_O_R truthy_def pushReason_def mathRound_numeral)


lemma skills_A_A:
  "calculateSkillsMatch toLowerCase profileA jobA =
     \<lparr>s_score = Finite 25, s_reasons = [''2 of your primary skills match: React, JavaScript''],
      matchedSkills = [''react'', ''javascript'']\<rparr>"
  by code_simp



lemma experience_S_J:
  "calculateExperienceMatch profileSenior jobJunior =
     \<lparr>m_score = 5, m_match = False,
      m_reason = Some (warningSign @ '' You may be overqualified for this Junior position''),
      m_issue = None\<rparr>"
  by code_simp

lemma score_O_Cook:
  "calculateJobMatchScore profileOnsite jobCook =
     \<lparr>score = 45, reasons = [[]], issues = [], suitable = True\<rparr>"
  by code_simp

subsection \<open>Suitability and the threshold\<close>

text \<open>
  C1. For every profile and job, the result of \<open>calculateJobMatchScore\<close> is suitable if and
  only if its returned score is at least 40 and it carries no hard-filter issue. (A result
  that passes both hard filters always sums to 40 or more, so rounding cannot separate the
  returned score from the sum the flag is computed on.)
\<close>

theorem suitable_iff_threshold:
  "suitable (calculateJobMatchScore p j)
     \<longleftrightarrow> 40 \<le> score (calculateJobMatchScore p j) \<and> issues (calculateJobMatchScore p j) = []"
proof (cases "m_match (calculateJobCategoryMatch p j)")
  case False
  then show ?thesis by (simp add: score_category_reject)
next
  case cat: True
  show ?thesis
  proof (cases "m_match (calculateLocationMatch p j) \<or> \<not> truthy (m_issue (calculateLocationMatch p j))")
    case False
    then show ?thesis using cat by (simp add: score_location_reject)
  next
    case True
    have b: "40 \<le> componentSum p j" using componentSum_pass_bounds[OF cat True] by simp
    then have "of_int 40 \<le> min 100 (componentSum p j)" by simp
    then have "of_int 40 \<le> mathRound (min 100 (componentSum p j))" by (rule mathRound_ge)
    then show ?thesis using b by (simp add: score_pass_fields[OF cat True])
  qed
qed


theorem suitable_iff_threshold_witness:
  "suitable (calculateJobMatchScore profileOnsite jobRemote)
   \<and> 40 \<le> score (calculateJobMatchScore profileOnsite jobRemote)
   \<and> issues (calculateJobMatchScore profileOnsite jobRemote) = []
   \<and> \<not> suitable (calculateJobMatchScore profileA jobB)
   \<and> issues (calculateJobMatchScore profileA jobB) \<noteq> []"
  using suitable_iff_threshold[of profileOnsite jobRemote]
    suitable_iff_threshold[of profileA jobB]
  by (simp add: score_O_R score_category_reject category_A_B)

subsection \<open>Hard filters\<close>

text \<open>
  C2. When the category match rejects (no match, with an issue), the result is score 0, not
  suitable, the issue alone in the issues and no reasons. When the category match passes
  and the location match rejects with an issue, the result is score 0, not suitable, the
  issue alone in the issues, and the reasons hold nothing but what the category match
  contributed. The on-site soft mismatch of the location match (no match, no issue) does
  not end the computation: the score is the rounded, capped sum of all six component
  scores, the 10 points of the location match among them.
\<close>

theorem hard_filter_short_circuit:
  "(\<forall>i. \<not> m_match (calculateJobCategoryMatch p j)
         \<and> m_issue (calculateJobCategoryMatch p j) = Some i
       \<longrightarrow> calculateJobMatchScore p j
             = \<lparr>score = 0, reasons = [], issues = [i], suitable = False\<rparr>)
   \<and> (\<forall>i. m_match (calculateJobCategoryMatch p j)
           \<and> \<not> m_match (calculateLocationMatch p j)
           \<and> m_issue (calculateLocationMatch p j) = Some i
         \<longrightarrow> calculateJobMatchScore p j
               = \<lparr>score = 0, reasons = categoryReasons p j, issues = [i], suitable = False\<rparr>)
   \<and> (m_match (calculateJobCategoryMatch p j)
        \<and> \<not> m_match (calculateLocationMatch p j)
        \<and> m_issue (calculateLocationMatch p j) = None
       \<longrightarrow> score (calculateJobMatchScore p j) = mathRound (min 100 (componentSum p j))
           \<and> suitable (calculateJobMatchScore p j) = (40 \<le> componentSum p j)
           \<and> issues (calculateJobMatchScore p j) = []
           \<and> m_score (calculateLocationMatch p j) = 10)"
proof (intro conjI allI impI)
  fix i
  assume "\<not> m_match (calculateJobCategoryMatch p j)
            \<and> m_issue (calculateJobCategoryMatch p j) = Some i"
  then show "calculateJobMatchScore p j
               = \<lparr>score = 0, reasons = [], issues = [i], suitable = False\<rparr>"
    by (simp add: score_category_reject)
next
  fix i
  assume a: "m_match (calculateJobCategoryMatch p j)
               \<and> \<not> m_match (calculateLocationMatch p j)
               \<and> m_issue (calculateLocationMatch p j) = Some i"
  then have "truthy (m_issue (calculateLocationMatch p j))"
    using location_cases[of p j] by auto
  with a show "calculateJobMatchScore p j
       = \<lparr>score = 0, reasons = categoryReasons p j, issues = [i], suitable = False\<rparr>"
    by (simp add: score_location_reject)
next
  assume a: "m_match (calculateJobCategoryMatch p j)
               \<and> \<not> m_match (calculateLocationMatch p j)
               \<and> m_issue (calculateLocationMatch p j) = None"
  then have c: "m_match (calculateJobCategoryMatch p j)"
    and l: "m_match (calculateLocationMatch p j)
              \<or> \<not> truthy (m_issue (calculateLocationMatch p j))"
    by (simp_all add: truthy_def)
  show "score (calculateJobMatchScore p j) = mathRound (min 100 (componentSum p j))"
    by (rule score_pass_fields(1)[OF c l])
  show "suitable (calculateJobMatchScore p j) = (40 \<le> componentSum p j)"
    by (rule score_pass_fields(3)[OF c l])
  show "issues (calculateJobMatchScore p j) = []"
    by (rule score_pass_fields(2)[OF c l])
  show "m_score (calculateLocationMatch p j) = 10"
    using a location_cases[of p j] by (auto simp: truthy_def)
qed

theorem hard_filter_short_circuit_witness:
  "calculateJobMatchScore profileA jobB
     = \<lparr>score = 0, reasons = [],
        issues = [''Job category (finance) doesn't match your desired field (tech)''],
        suitable = False\<rparr>
   \<and> calculateJobMatchScore profileC jobC
     = \<lparr>score = 0, reasons = [],
        issues = [''Job requires on-site presence in Vienna, but you prefer remote work''],
        suitable = False\<rparr>
   \<and> score (calculateJobMatchScore profileOnsite jobRemote) = 45
   \<and> m_score (calculateLocationMatch profileOnsite jobRemote) = 10"
proof -
  have 1: "calculateJobMatchScore profileA jobB
     = \<lparr>score = 0, reasons = [],
        issues = [''Job category (finance) doesn't match your desired field (tech)''],
        suitable = False\<rparr>"
    using hard_filter_short_circuit[of profileA jobB] by (simp add: category_A_B)
  have 2: "calculateJobMatchScore profileC jobC
     = \<lparr>score = 0, reasons = [],
        issues = [''Job requires on-site presence in Vienna, but you prefer remote work''],
        suitable = False\<rparr>"
    using hard_filter_short_circuit[of profileC jobC]
    by (simp add: category_C_C location_C_C categoryReasons_def)
  have 3: "score (calculateJobMatchScore profileOnsite jobRemote) = 45"
    using hard_filter_short_circuit[of profileOnsite jobRemote]
    by (simp add: category_O_R location_O_R remote_O_R skills_O_R experience_O_R jobType_O_R
        componentSum_def mathRound_numeral)
  show ?thesis using 1 2 3 by (simp add: location_O_R)
qed


subsection \<open>The location score\<close>

text \<open>
  C4, as stated: the score of the location match is one of 0, 15, 20 and 25. It fails for a
  profile that prefers on-site work and a remote-only job, where the score is 10.
\<close>

theorem location_score_counterexample:
  "m_score (calculateLocationMatch profileOnsite jobRemote) \<notin> {0, 15, 20, 25}"
  by (simp add: location_O_R)

text \<open>
  C4, amended: for every profile and job the score of the location match is one of
  0, 10, 15, 20 and 25.
\<close>

theorem location_score_values:
  "m_score (calculateLocationMatch p j) \<in> {0, 10, 15, 20, 25}"
  by (simp add: calculateLocationMatch_def Let_def)

subsection \<open>The range of the score\<close>

text \<open>
  C7. For every profile and job, missing optional fields included, the score of the result
  of \<open>calculateJobMatchScore\<close> is an integer between 0 and 100.
\<close>

theorem score_bounded:
  "\<exists>k::int. score (calculateJobMatchScore p j) = of_int k \<and> 0 \<le> k \<and> k \<le> 100"
proof (cases "m_match (calculateJobCategoryMatch p j)")
  case False
  then have "score (calculateJobMatchScore p j) = of_int 0"
    by (simp add: score_category_reject)
  then show ?thesis by (intro exI[of _ 0]) simp
next
  case cat: True
  show ?thesis
  proof (cases "m_match (calculateLocationMatch p j) \<or> \<not> truthy (m_issue (calculateLocationMatch p j))")
    case False
    then have "score (calculateJobMatchScore p j) = of_int 0"
      using cat by (simp add: score_location_reject)
    then show ?thesis by (intro exI[of _ 0]) simp
  next
    case True
    have "0 \<le> componentSum p j" using componentSum_pass_bounds[OF cat True] by simp
    then show ?thesis
      unfolding score_pass_fields(1)[OF cat True] by (rule mathRound_range)
  qed
qed


theorem score_bounded_witness:
  "\<exists>k::int. score (calculateJobMatchScore profileOnsite jobRemote) = of_int k
             \<and> 0 \<le> k \<and> k \<le> 100 \<and> k = 45"
  using score_bounded[of profileOnsite jobRemote] by (simp add: score_O_R)

subsection \<open>The skills score\<close>

lemma lowerChar_idem: "lowerChar (lowerChar c) = lowerChar c"
proof (cases "map_of (zip ''ABCDEFGHIJKLMNOPQRSTUVWXYZ'' ''abcdefghijklmnopqrstuvwxyz'') c")
  case None
  then show ?thesis by (simp add: lowerChar_def)
next
  case (Some d)
  then have "(c, d) \<in> set (zip ''ABCDEFGHIJKLMNOPQRSTUVWXYZ'' ''abcdefghijklmnopqrstuvwxyz'')"
    by (rule map_of_SomeD)
  then have "d \<in> set ''abcdefghijklmnopqrstuvwxyz''"
    by (rule set_zip_rightD)
  then have "d \<notin> set ''ABCDEFGHIJKLMNOPQRSTUVWXYZ''"
    by auto
  then have "map_of (zip ''ABCDEFGHIJKLMNOPQRSTUVWXYZ'' ''abcdefghijklmnopqrstuvwxyz'') d = None"
    by (simp add: map_of_eq_None_iff)
  with Some show ?thesis by (simp add: lowerChar_def)
qed

lemma toLowerCase_idem: "toLowerCase (toLowerCase s) = toLowerCase s"
  by (simp add: toLowerCase_def lowerChar_idem)

lemma str_includes_sublist: "str_includes s pat = sublist pat s"
  by (induction s) (auto simp: sublist_Cons_right)


lemma matched_skills:
  assumes "\<And>s. lc (lc s) = lc s"
  shows "filter (\<lambda>skill. str_includes (jobText lc j) (lc skill)) (userSkills lc p)
         = map lc (filter (\<lambda>s. sublist (lc s) (jobText lc j))
                     (optList (primarySkills p) @ optList (secondarySkills p)))"
  unfolding userSkills_def filter_map
  by (simp add: comp_def assms str_includes_sublist)

text \<open>
  C5. Let \<open>lc\<close> be the lower-casing of strings, of which only idempotence is used (the
  function lower-cases each skill twice). The skills score is
  \<open>min 25 (matchedCount / totalUserSkillCount * 25)\<close>, where the user's skills are the
  primary skills followed by the secondary ones and a skill is matched iff its lower-cased
  text occurs in the lower-cased title, a blank and the lower-cased description of the job
  (nothing when the description is missing). With no skills at all the score is the number
  0: the quotient, which would be NaN at zero by zero, is not taken.
\<close>

theorem skills_score_formula:
  assumes "\<And>s. lc (lc s) = lc s"
  shows
  "let skills = optList (primarySkills p) @ optList (secondarySkills p);
       text = lc (job_title j) @ '' ''
              @ (case job_description j of None \<Rightarrow> [] | Some d \<Rightarrow> lc d);
       matched = filter (\<lambda>s. sublist (lc s) text) skills;
       matchedCount = length matched;
       totalUserSkillCount = length skills
   in matchedSkills (calculateSkillsMatch lc p j) = map lc matched
    \<and> (totalUserSkillCount = 0 \<longrightarrow> s_score (calculateSkillsMatch lc p j) = Finite 0)
    \<and> (totalUserSkillCount > 0 \<longrightarrow>
         s_score (calculateSkillsMatch lc p j)
           = Finite (min 25 (of_nat matchedCount / of_nat totalUserSkillCount * 25)))"
proof -
  have m: "matchedSkills (calculateSkillsMatch lc p j)
             = filter (\<lambda>skill. str_includes (jobText lc j) (lc skill)) (userSkills lc p)"
    by (simp add: calculateSkillsMatch_def Let_def)
  show ?thesis
    unfolding Let_def skills_score_eq m matched_skills[OF assms] jobText_def[symmetric]
    by (simp add: userSkills_def)
qed

lemma skills_Case:
  "optList (primarySkills profileCase) @ optList (secondarySkills profileCase)
     = [''REACT'', ''Cobol'']"
  by code_simp

lemma text_Case:
  "toLowerCase (job_title jobCase) @ '' ''
     @ (case job_description jobCase of None \<Rightarrow> [] | Some d \<Rightarrow> toLowerCase d)
   = ''react developer we use javascript''"
  by code_simp

lemma matched_Case:
  "filter (\<lambda>s. sublist (toLowerCase s) ''react developer we use javascript'')
     [''REACT'', ''Cobol''] = [''REACT'']"
  by code_simp

lemma folded_Case: "map toLowerCase [''REACT''] = [''react'']"
  by code_simp

lemma skills_None:
  "optList (primarySkills profileOnsite) @ optList (secondarySkills profileOnsite) = []"
  by code_simp

theorem skills_score_formula_witness:
  "(\<forall>s. toLowerCase (toLowerCase s) = toLowerCase s)
   \<and> matchedSkills (calculateSkillsMatch toLowerCase profileCase jobCase) = [''react'']
   \<and> s_score (calculateSkillsMatch toLowerCase profileCase jobCase) = Finite (25 / 2)
   \<and> s_score (calculateSkillsMatch toLowerCase profileOnsite jobRemote) = Finite 0"
proof -
  have 1: "matchedSkills (calculateSkillsMatch toLowerCase profileCase jobCase) = [''react'']
           \<and> s_score (calculateSkillsMatch toLowerCase profileCase jobCase) = Finite (25 / 2)"
    using skills_score_formula[OF toLowerCase_idem, of profileCase jobCase,
        unfolded Let_def skills_Case text_Case matched_Case folded_Case]
    by simp
  have 2: "s_score (calculateSkillsMatch toLowerCase profileOnsite jobRemote) = Finite 0"
    using skills_score_formula[OF toLowerCase_idem, of profileOnsite jobRemote,
        unfolded Let_def skills_None]
    by simp
  show ?thesis using 1 2 by (simp add: toLowerCase_idem)
qed





subsection \<open>Where the reasons come from\<close>

lemma neq_via_rev: "rev a \<noteq> rev b \<Longrightarrow> a \<noteq> b"
  by auto

lemma not_caution_rev:
  assumes "rev s \<noteq> rev (warningSign @ '' You may be overqualified for this Junior position'')"
    and "rev s \<noteq> rev (warningSign @ '' This Senior position may require more experience'')"
    and "rev s \<noteq> rev ''Remote position (you prefer on-site)''"
  shows "s \<notin> cautionReasons"
  using assms unfolding cautionReasons_def by auto

lemma nc_empty: "[] \<notin> cautionReasons"
  by (simp add: cautionReasons_def warningSign_def)

lemma nc_career: "t @ '' position matches your career path'' \<notin> cautionReasons"
  by (rule not_caution_rev) (simp_all add: warningSign_def)

lemma nc_related: "''Related field: '' @ t \<notin> cautionReasons"
  by (simp add: cautionReasons_def warningSign_def)

lemma nc_interests: "t @ '' matches your interests'' \<notin> cautionReasons"
  by (rule not_caution_rev) (simp_all add: warningSign_def)

lemma nc_fullstack: "t @ '' position (you're Full Stack)'' \<notin> cautionReasons"
  by (rule not_caution_rev) (simp_all add: warningSign_def)

lemma nc_remote_pref: "''Remote position matching your '' @ t \<notin> cautionReasons"
  by (simp add: cautionReasons_def warningSign_def)

lemma nc_location: "''Location '' @ t \<notin> cautionReasons"
  by (simp add: cautionReasons_def warningSign_def)

lemma nc_job: "''Job '' @ t \<notin> cautionReasons"
  by (simp add: cautionReasons_def warningSign_def)

lemma nc_experience: "''Experience level matches ('' @ t \<notin> cautionReasons"
  by (simp add: cautionReasons_def warningSign_def)

lemma nc_relocation:
  "warningSign @ '' Outside preferred locations, but you're open to relocation''
     \<notin> cautionReasons"
  by (simp add: cautionReasons_def warningSign_def)

lemma nc_house: "houseSign @ '' Fully remote position'' \<notin> cautionReasons"
  by (simp add: cautionReasons_def warningSign_def houseSign_def)

lemma nc_arrows: "arrowsSign @ '' Hybrid/flexible work arrangement'' \<notin> cautionReasons"
  by (simp add: cautionReasons_def warningSign_def arrowsSign_def)

lemma nc_sparkles: "sparklesSign @ '' Flexible with work arrangement'' \<notin> cautionReasons"
  by (simp add: cautionReasons_def warningSign_def sparklesSign_def)

lemma nc_office: "officeSign @ '' On-site position as preferred'' \<notin> cautionReasons"
  by (simp add: cautionReasons_def warningSign_def officeSign_def)

lemma showNat_digit: "showNat n \<noteq> [] \<and> hd (showNat n) \<in> set ''0123456789''"
proof (induction n rule: showNat.induct)
  case (1 n)
  show ?case
  proof (cases "n < 10")
    case True
    then have "n \<in> {0, 1, 2, 3, 4, 5, 6, 7, 8, 9}" by auto
    then show ?thesis by (subst (1 2) showNat.simps) auto
  next
    case False
    then show ?thesis using 1 by (subst (1 2) showNat.simps) simp
  qed
qed

lemma nc_digit:
  assumes "s \<noteq> []" and "hd s \<in> set ''0123456789''"
  shows "s @ t \<notin> cautionReasons"
proof -
  have "hd (s @ t) \<in> set ''0123456789''" using assms by simp
  moreover have "\<forall>c \<in> cautionReasons. hd c \<notin> set ''0123456789''"
    by (simp add: cautionReasons_def warningSign_def)
  ultimately show ?thesis by blast
qed

lemma nc_showNat: "showNat n @ t \<notin> cautionReasons"
  using showNat_digit[of n] by (intro nc_digit) simp_all

lemma category_reason_nc:
  "\<forall>s. m_reason (calculateJobCategoryMatch p j) = Some s \<longrightarrow> s \<notin> cautionReasons"
  by (simp add: calculateJobCategoryMatch_def Let_def nc_empty nc_career nc_related[simplified]
      split: option.split)

lemma category_issue_nc:
  "\<forall>s. m_issue (calculateJobCategoryMatch p j) = Some s \<longrightarrow> s \<notin> cautionReasons"
  using nc_job[of "''category ('' @ t" for t]
  by (simp add: calculateJobCategoryMatch_def Let_def split: option.split)

lemma location_issue_nc:
  "\<forall>s. m_issue (calculateLocationMatch p j) = Some s \<longrightarrow> s \<notin> cautionReasons"
  using nc_job[of "''requires on-site presence in '' @ t" for t]
    nc_job[of "''location '' @ t" for t]
  by (simp add: calculateLocationMatch_def Let_def)

lemma location_match_reason_nc:
  "m_match (calculateLocationMatch p j) \<longrightarrow>
     (\<forall>s. m_reason (calculateLocationMatch p j) = Some s \<longrightarrow> s \<notin> cautionReasons)"
  using nc_job[of "''is in your current city ('' @ t" for t]
  by (simp add: calculateLocationMatch_def Let_def nc_remote_pref[simplified] nc_location[simplified] nc_relocation)

lemma remote_reason_nc:
  "\<forall>s. m_reason (calculateRemoteMatch p j) = Some s \<longrightarrow> s \<notin> cautionReasons"
  by (simp add: calculateRemoteMatch_def Let_def nc_house nc_arrows nc_sparkles nc_office)

lemma skills_reasons_nc:
  "\<forall>s \<in> set (s_reasons (calculateSkillsMatch toLowerCase p j)). s \<notin> cautionReasons"
  by (auto simp add: calculateSkillsMatch_def Let_def nc_showNat)

lemma experience_match_reason_nc:
  "m_match (calculateExperienceMatch p j) \<longrightarrow>
     (\<forall>s. m_reason (calculateExperienceMatch p j) = Some s \<longrightarrow> s \<notin> cautionReasons)"
  by (simp add: calculateExperienceMatch_def Let_def nc_empty nc_experience[simplified])

lemma jobType_reason_nc:
  "\<forall>s. m_reason (calculateJobTypeMatch p j) = Some s \<longrightarrow> s \<notin> cautionReasons"
  by (simp add: calculateJobTypeMatch_def Let_def nc_interests nc_fullstack)

lemma experience_caution:
  "\<not> m_match (calculateExperienceMatch p j) \<longrightarrow>
     (\<forall>s. m_reason (calculateExperienceMatch p j) = Some s \<longrightarrow> s \<in> cautionReasons)"
  by (simp add: calculateExperienceMatch_def Let_def cautionReasons_def tplStr_def)

lemma location_soft_caution:
  "\<not> m_match (calculateLocationMatch p j) \<longrightarrow>
     (\<forall>s. m_reason (calculateLocationMatch p j) = Some s \<longrightarrow> s \<in> cautionReasons)"
  by (simp add: calculateLocationMatch_def Let_def cautionReasons_def)

lemma remote_match_reason:
  "m_match (calculateRemoteMatch p j) \<longrightarrow> m_reason (calculateRemoteMatch p j) \<noteq> None"
  by (simp add: calculateRemoteMatch_def Let_def)

lemma experience_match_reason:
  "m_match (calculateExperienceMatch p j) \<longrightarrow> m_reason (calculateExperienceMatch p j) \<noteq> None"
  by (simp add: calculateExperienceMatch_def Let_def)

lemma jobType_match_reason:
  "m_match (calculateJobTypeMatch p j) \<longrightarrow> m_reason (calculateJobTypeMatch p j) \<noteq> None"
  by (simp add: calculateJobTypeMatch_def Let_def)

lemma score_pass_reasons:
  assumes "m_match (calculateJobCategoryMatch p j)"
    and "m_match (calculateLocationMatch p j) \<or> \<not> truthy (m_issue (calculateLocationMatch p j))"
  shows "reasons (calculateJobMatchScore p j) =
           categoryReasons p j @ reasonIfMatch (calculateLocationMatch p j)
           @ reasonIfMatch (calculateRemoteMatch p j) @ s_reasons (calculateSkillsMatch toLowerCase p j)
           @ reasonIfMatch (calculateExperienceMatch p j)
           @ reasonIfMatch (calculateJobTypeMatch p j)"
proof -
  have c: "m_reason (calculateJobCategoryMatch p j) \<noteq> None"
    using assms(1) category_cases[of p j] by blast
  have n: "\<not> (\<not> m_match (calculateLocationMatch p j)
               \<and> truthy (m_issue (calculateLocationMatch p j)))"
    using assms(2) by blast
  have r0: "(if truthy (m_reason (calculateJobCategoryMatch p j))
             then pushReason [] (calculateJobCategoryMatch p j) else [])
            = categoryReasons p j"
    using c by (auto simp: truthy_def categoryReasons_def pushReason_def)
  have push: "\<And>rs m. (if m_match m then pushReason rs m else rs) = rs @ reasonIfMatch m"
    by (simp add: reasonIfMatch_def pushReason_def)
  have sk: "\<And>rs xs :: string list. (if length xs > 0 then rs @ xs else rs) = rs @ xs"
    by simp
  show ?thesis
    unfolding calculateJobMatchScore_def Let_def r0 push sk if_not_P[OF n]
    using assms(1) by simp
qed

lemma reasonIfMatch_origin:
  assumes "m_match m \<longrightarrow> m_reason m \<noteq> None"
  shows "set (reasonIfMatch m) \<subseteq> {s. m_match m \<and> m_reason m = Some s}"
  using assms by (auto simp: reasonIfMatch_def)

lemma categoryReasons_origin:
  "set (categoryReasons p j) \<subseteq> {s. m_reason (calculateJobCategoryMatch p j) = Some s}"
  by (auto simp: categoryReasons_def split: option.splits if_splits)

text \<open>
  C9. Every string in the reasons of a result is the reason of a sub-matcher (category,
  location, remote, experience, job type) that returned a match, or one of the reasons of
  the skills match. The cautionary reason of an experience match that did not match, and
  the reason of the on-site soft mismatch of the location match (no match, no issue),
  occur neither in the reasons nor in the issues of the result.
\<close>

theorem reasons_origin:
  "set (reasons (calculateJobMatchScore p j))
     \<subseteq> {s. \<exists>m \<in> {calculateJobCategoryMatch p j, calculateLocationMatch p j,
                      calculateRemoteMatch p j, calculateExperienceMatch p j,
                      calculateJobTypeMatch p j}. m_match m \<and> m_reason m = Some s}
       \<union> set (s_reasons (calculateSkillsMatch toLowerCase p j))
   \<and> (\<not> m_match (calculateExperienceMatch p j) \<longrightarrow>
        (\<forall>s. m_reason (calculateExperienceMatch p j) = Some s \<longrightarrow>
             s \<notin> set (reasons (calculateJobMatchScore p j))
             \<and> s \<notin> set (issues (calculateJobMatchScore p j))))
   \<and> (\<not> m_match (calculateLocationMatch p j)
        \<and> m_issue (calculateLocationMatch p j) = None \<longrightarrow>
        (\<forall>s. m_reason (calculateLocationMatch p j) = Some s \<longrightarrow>
             s \<notin> set (reasons (calculateJobMatchScore p j))
             \<and> s \<notin> set (issues (calculateJobMatchScore p j))))"
proof -
  let ?r = "calculateJobMatchScore p j"
  let ?origin = "{s. \<exists>m \<in> {calculateJobCategoryMatch p j, calculateLocationMatch p j,
                      calculateRemoteMatch p j, calculateExperienceMatch p j,
                      calculateJobTypeMatch p j}. m_match m \<and> m_reason m = Some s}
       \<union> set (s_reasons (calculateSkillsMatch toLowerCase p j))"
  have catR: "m_match (calculateJobCategoryMatch p j) \<Longrightarrow> set (categoryReasons p j) \<subseteq> ?origin"
    using categoryReasons_origin[of p j] by auto
  have catNC: "\<forall>s \<in> set (categoryReasons p j). s \<notin> cautionReasons"
    using categoryReasons_origin[of p j] category_reason_nc[of p j] by auto
  have both: "set (reasons ?r) \<subseteq> ?origin
              \<and> (\<forall>s \<in> set (reasons ?r) \<union> set (issues ?r). s \<notin> cautionReasons)"
  proof (cases "m_match (calculateJobCategoryMatch p j)")
    case False
    then have "m_issue (calculateJobCategoryMatch p j) \<noteq> None"
      using category_cases[of p j] by blast
    then show ?thesis
      using False category_issue_nc[of p j] by (auto simp add: score_category_reject)
  next
    case cat: True
    show ?thesis
    proof (cases "m_match (calculateLocationMatch p j)
                    \<or> \<not> truthy (m_issue (calculateLocationMatch p j))")
      case False
      then have "m_issue (calculateLocationMatch p j) \<noteq> None"
        by (auto simp: truthy_def split: option.splits)
      then show ?thesis
        using False cat catR catNC location_issue_nc[of p j]
        by (auto simp add: score_location_reject)
    next
      case True
      have l: "set (reasonIfMatch (calculateLocationMatch p j))
                 \<subseteq> {s. m_match (calculateLocationMatch p j)
                         \<and> m_reason (calculateLocationMatch p j) = Some s}"
        using location_cases[of p j] by (intro reasonIfMatch_origin) auto
      have r: "set (reasonIfMatch (calculateRemoteMatch p j))
                 \<subseteq> {s. m_match (calculateRemoteMatch p j)
                         \<and> m_reason (calculateRemoteMatch p j) = Some s}"
        by (intro reasonIfMatch_origin remote_match_reason)
      have e: "set (reasonIfMatch (calculateExperienceMatch p j))
                 \<subseteq> {s. m_match (calculateExperienceMatch p j)
                         \<and> m_reason (calculateExperienceMatch p j) = Some s}"
        by (intro reasonIfMatch_origin experience_match_reason)
      have t: "set (reasonIfMatch (calculateJobTypeMatch p j))
                 \<subseteq> {s. m_match (calculateJobTypeMatch p j)
                         \<and> m_reason (calculateJobTypeMatch p j) = Some s}"
        by (intro reasonIfMatch_origin jobType_match_reason)
      have sub: "set (reasons ?r) \<subseteq> ?origin"
        unfolding score_pass_reasons[OF cat True]
        using catR[OF cat] l r e t by auto
      have nc: "\<forall>s \<in> set (reasons ?r). s \<notin> cautionReasons"
        unfolding score_pass_reasons[OF cat True]
        using catNC l r e t location_match_reason_nc[of p j] remote_reason_nc[of p j]
          skills_reasons_nc[of p j] experience_match_reason_nc[of p j]
          jobType_reason_nc[of p j]
        by auto
      show ?thesis
        using sub nc by (simp add: score_pass_fields(2)[OF cat True])
    qed
  qed
  show ?thesis
    using both experience_caution[of p j] location_soft_caution[of p j] by blast
qed


theorem reasons_origin_witness:
  "\<not> m_match (calculateExperienceMatch profileSenior jobJunior)
   \<and> m_reason (calculateExperienceMatch profileSenior jobJunior)
       = Some (warningSign @ '' You may be overqualified for this Junior position'')
   \<and> warningSign @ '' You may be overqualified for this Junior position''
       \<notin> set (reasons (calculateJobMatchScore profileSenior jobJunior))
   \<and> \<not> m_match (calculateLocationMatch profileOnsite jobRemote)
   \<and> m_issue (calculateLocationMatch profileOnsite jobRemote) = None
   \<and> ''Remote position (you prefer on-site)''
       \<notin> set (reasons (calculateJobMatchScore profileOnsite jobRemote))"
  using reasons_origin[of profileSenior jobJunior] reasons_origin[of profileOnsite jobRemote]
  by (simp add: experience_S_J location_O_R)

subsection \<open>Matched jobs\<close>

lemma withMatch_sel:
  "matchScore (withMatch j m) = score m" "jobSuitable (withMatch j m) = suitable m"
  by (simp_all add: withMatch_def job.extend_def scoredJob.fields_def)

lemma passes_O_R:
  "passes 40 (withMatch jobRemote (calculateJobMatchScore profileOnsite jobRemote))"
  by (simp add: passes_def withMatch_sel score_O_R)

lemma passes_O_Cook:
  "passes 40 (withMatch jobCook (calculateJobMatchScore profileOnsite jobCook))"
  by (simp add: passes_def withMatch_sel score_O_Cook)

text \<open>What does hold of the list and of the count: the returned jobs are in descending
  order of score when sorted by score, their number is the count reported, and the count is
  at most the number of jobs that passed the filter.\<close>

lemma sorted_slice0: "sorted (map f xs) \<Longrightarrow> sorted (map f (slice0 n xs))"
  unfolding slice0_def take_map[symmetric] by (rule sorted_wrt_take)

lemma getMatchedJobs_descending:
  assumes "sortBy opts = None \<or> sortBy opts = Some ''score''"
  shows "sorted (map (\<lambda>sj. - matchScore sj) (jobs (getMatchedJobs p allJobs opts)))"
  using assms
  by (auto simp add: getMatchedJobs_def Let_def sortJobs_def intro!: sorted_slice0)

lemma getMatchedJobs_count:
  "totalMatches (getMatchedJobs p allJobs opts) = length (jobs (getMatchedJobs p allJobs opts))
   \<and> totalMatches (getMatchedJobs p allJobs opts)
       \<le> length (filter (passes (case minScore opts of None \<Rightarrow> 40 | Some v \<Rightarrow> v))
                  (map (\<lambda>j. withMatch j (calculateJobMatchScore p j)) allJobs))"
proof -
  have le: "length (slice0 n xs) \<le> length xs" for n and xs :: "scoredJob list"
    by (simp add: slice0_def)
  have ls: "length (sortJobs sb xs) = length xs" for sb xs
    by (simp add: sortJobs_def)
  show ?thesis
    unfolding getMatchedJobs_def Let_def
    using le[of "case maxResults opts of None \<Rightarrow> 50 | Some v \<Rightarrow> v"
             "sortJobs (case sortBy opts of None \<Rightarrow> ''score'' | Some v \<Rightarrow> v)
                (filter (passes (case minScore opts of None \<Rightarrow> 40 | Some v \<Rightarrow> v))
                   (map (\<lambda>j. withMatch j (calculateJobMatchScore p j)) allJobs))"]
    by (simp add: ls)
qed

text \<open>
  C3. The claim has \<open>totalMatches\<close> count the jobs that passed the filter. The function
  takes the length after the truncation to \<open>maxResults\<close>: with two jobs that both pass
  and \<open>maxResults = 1\<close> it reports one match and a match rate of 50.
\<close>

theorem getMatchedJobs_totalMatches_truncated:
  "totalMatches (getMatchedJobs profileOnsite [jobRemote, jobCook] optsOne) = 1
   \<and> length (filter (passes 40)
        (map (\<lambda>j. withMatch j (calculateJobMatchScore profileOnsite j)) [jobRemote, jobCook])) = 2
   \<and> matchRate (getMatchedJobs profileOnsite [jobRemote, jobCook] optsOne) = Finite 50"
  by (simp add: getMatchedJobs_def optsOne_def Let_def passes_O_R passes_O_Cook sortJobs_def
      slice0_def jsDivide_def jsApply_def mathRound_numeral)

text \<open>
  C10. On an empty job collection the function returns no jobs, \<open>totalMatches = 0\<close>,
  \<open>totalJobs = 0\<close> and a match rate that is not a number: the quotient of the two lengths
  is taken without a guard, and it is zero by zero.
\<close>

theorem getMatchedJobs_empty:
  "getMatchedJobs p [] opts = \<lparr>jobs = [], totalMatches = 0, totalJobs = 0, matchRate = NaN\<rparr>"
  by (simp add: getMatchedJobs_def sortJobs_def slice0_def jsDivide_def jsApply_def Let_def)

subsection \<open>The store\<close>

lemma unchanged_iff: "unchanged h h' \<longleftrightarrow> (\<forall>a < length h. lookup h' a = lookup h a)"
  by (auto simp add: unchanged_def list_all_iff)

lemma cells_Nil: "cells h [] = h"
  by (simp add: cells_def)

lemma alloc_cells: "alloc (cells h cs) x = (cells h (cs @ [x]), addrOf h (length cs))"
  by (simp add: alloc_def cells_def addrOf_def)

lemma lookup_cells_old: "a < length h \<Longrightarrow> lookup (cells h cs) a = lookup h a"
  by (simp add: lookup_def cells_def nth_append)

lemma lookup_cells_new:
  "lookup (cells h cs) (addrOf h k) = (if k < length cs then Some (cs ! k) else None)"
  by (simp add: lookup_def cells_def addrOf_def nth_append)

lemma update_same: "cs ! k = x \<Longrightarrow> cs[k := x] = cs"
  by auto

lemma push_cells:
  assumes "k < length cs" and "isStrings (cs ! k)"
  shows "push (cells h cs) (addrOf h k) s
         = Some (cells h (cs[k := StringsObj (stringsOf (cs ! k) @ [s])]))"
proof -
  from assms(2) obtain xs where xs: "cs ! k = StringsObj xs" by (cases "cs ! k") simp_all
  show ?thesis
    using assms(1) xs
    by (simp add: push_def stringsAt_def lookup_cells_new)
       (simp add: cells_def addrOf_def list_update_append)
qed

lemma pushAll_cells:
  assumes "k < length cs" and "isStrings (cs ! k)"
  shows "pushAll (cells h cs) (addrOf h k) ss
         = Some (cells h (cs[k := StringsObj (stringsOf (cs ! k) @ ss)]))"
  using assms
proof (induction ss arbitrary: cs)
  case Nil
  then obtain xs where "cs ! k = StringsObj xs" by (cases "cs ! k") simp_all
  then show ?case by (simp add: update_same)
next
  case (Cons s ss)
  let ?cs = "cs[k := StringsObj (stringsOf (cs ! k) @ [s])]"
  have "pushAll (cells h ?cs) (addrOf h k) ss
          = Some (cells h (?cs[k := StringsObj (stringsOf (?cs ! k) @ ss)]))"
    using Cons.prems by (intro Cons.IH) simp_all
  then show ?case
    using Cons.prems by (simp add: push_cells)
qed

lemma pushReasonIf_cells:
  assumes "k < length cs" and "isStrings (cs ! k)"
  shows "pushReasonIf (cells h cs) (addrOf h k) m
         = Some (cells h (cs[k := StringsObj (stringsOf (cs ! k) @ reasonIfMatch m)]))"
proof -
  from assms(2) obtain xs where xs: "cs ! k = StringsObj xs" by (cases "cs ! k") simp_all
  show ?thesis
    using assms xs
    by (simp add: pushReasonIf_def push_cells reasonIfMatch_def update_same)
qed

lemma pushReasonIfSet_cells:
  assumes "k < length cs" and "isStrings (cs ! k)"
  shows "pushReasonIfSet (cells h cs) (addrOf h k) m
         = Some (cells h (cs[k := StringsObj (stringsOf (cs ! k) @ reasonIfSet m)]))"
proof -
  from assms(2) obtain xs where xs: "cs ! k = StringsObj xs" by (cases "cs ! k") simp_all
  show ?thesis
    using assms xs
    by (simp add: pushReasonIfSet_def push_cells reasonIfSet_def update_same)
qed

lemma pushAllIfAny_cells:
  assumes "k < length cs" and "isStrings (cs ! k)"
  shows "pushAllIfAny (cells h cs) (addrOf h k) ss
         = Some (cells h (cs[k := StringsObj (stringsOf (cs ! k) @ ss)]))"
proof -
  from assms(2) obtain xs where xs: "cs ! k = StringsObj xs" by (cases "cs ! k") simp_all
  show ?thesis
    using assms xs
    by (cases "ss = []") (simp_all add: pushAllIfAny_def pushAll_cells update_same)
qed

lemma profileAt_cells: "a < length h \<Longrightarrow> profileAt (cells h cs) a = profileAt h a"
  by (simp add: profileAt_def lookup_cells_old)

lemma jobAt_cells: "a < length h \<Longrightarrow> jobAt (cells h cs) a = jobAt h a"
  by (simp add: jobAt_def lookup_cells_old)

lemma callMatcher_cells:
  assumes "profileAt h pa = Some p" and "jobAt h ja = Some j"
  shows "callMatcher f (cells h cs) pa ja
         = Some (cells h (cs @ [MatcherObj (f p j)]), addrOf h (length cs))"
proof -
  have "pa < length h" "ja < length h"
    using assms by (auto simp: profileAt_def jobAt_def lookup_def split: if_splits)
  then show ?thesis
    using assms by (simp add: callMatcher_def profileAt_cells jobAt_cells alloc_cells)
qed

lemma calculateSkillsMatch_store_cells:
  assumes "profileAt h pa = Some p" and "jobAt h ja = Some j"
  shows "calculateSkillsMatch_store lc (cells h cs) pa ja
         = Some (cells h (cs @ [StringsObj (matchedSkills (calculateSkillsMatch lc p j)),
                                StringsObj (s_reasons (calculateSkillsMatch lc p j)),
                                SkillsObj \<lparr>sr_score = s_score (calculateSkillsMatch lc p j),
                                          sr_reasons = addrOf h (Suc (length cs)),
                                          sr_matchedSkills = addrOf h (length cs)\<rparr>]),
                 addrOf h (Suc (Suc (length cs))))"
proof -
  have "pa < length h" "ja < length h"
    using assms by (auto simp: profileAt_def jobAt_def lookup_def split: if_splits)
  then show ?thesis
    using assms
    by (simp add: calculateSkillsMatch_store_def profileAt_cells jobAt_cells alloc_cells
        pushAll_cells nth_append list_update_append Let_def)
qed



lemma scoreRest_cells:
  assumes "profileAt h pa = Some p" and "jobAt h ja = Some j"
  shows "scoreRest (cells h [StringsObj rs, StringsObj is, MatcherObj c, MatcherObj l]) pa ja
           (addrOf h 0) (addrOf h (Suc 0)) s1
         = Some (cells h
             [StringsObj (rs @ reasonIfMatch (calculateRemoteMatch p j)
                @ s_reasons (calculateSkillsMatch toLowerCase p j)
                @ reasonIfMatch (calculateExperienceMatch p j)
                @ reasonIfMatch (calculateJobTypeMatch p j)),
              StringsObj is, MatcherObj c, MatcherObj l,
              MatcherObj (calculateRemoteMatch p j),
              StringsObj (matchedSkills (calculateSkillsMatch toLowerCase p j)),
              StringsObj (s_reasons (calculateSkillsMatch toLowerCase p j)),
              SkillsObj \<lparr>sr_score = s_score (calculateSkillsMatch toLowerCase p j),
                        sr_reasons = addrOf h 6, sr_matchedSkills = addrOf h 5\<rparr>,
              MatcherObj (calculateExperienceMatch p j),
              MatcherObj (calculateJobTypeMatch p j),
              MatchObj \<lparr>mr_score = mathRound (min 100
                          (s1 + m_score (calculateRemoteMatch p j)
                           + finiteValue (s_score (calculateSkillsMatch toLowerCase p j))
                           + m_score (calculateExperienceMatch p j)
                           + m_score (calculateJobTypeMatch p j))),
                        mr_reasons = addrOf h 0, mr_issues = addrOf h (Suc 0),
                        mr_suitable = (40 \<le> s1 + m_score (calculateRemoteMatch p j)
                           + finiteValue (s_score (calculateSkillsMatch toLowerCase p j))
                           + m_score (calculateExperienceMatch p j)
                           + m_score (calculateJobTypeMatch p j))\<rparr>],
             addrOf h 10)"
  using assms
  by (simp add: scoreRest_def callMatcher_cells calculateSkillsMatch_store_cells
      pushReasonIf_cells pushAllIfAny_cells alloc_cells lookup_cells_new matcherAt_def skillsAt_def
      stringsAt_def Let_def eval_nat_numeral)


lemma unchanged_cells: "unchanged h (cells h cs)"
  by (simp add: unchanged_iff lookup_cells_old)

lemma addrOf_fresh: "length h \<le> addrOf h k"
  by (simp add: addrOf_def)

lemma categoryReasons_reasonIfSet: "categoryReasons p j = reasonIfSet (calculateJobCategoryMatch p j)"
  by (simp add: categoryReasons_def reasonIfSet_def truthy_def split: option.split)

lemma calculateJobMatchScore_store_cells:
  assumes p: "profileAt h pa = Some p" and j: "jobAt h ja = Some j"
  shows "\<exists>h' ma. calculateJobMatchScore_store (cells h []) pa ja = Some (h', ma)
           \<and> unchanged h h' \<and> matchStored h h' ma (calculateJobMatchScore p j)"
proof (cases "m_match (calculateJobCategoryMatch p j)")
  case False
  then show ?thesis
    using p j
    by (simp add: calculateJobMatchScore_store_def callMatcher_cells alloc_cells
        lookup_cells_new matcherAt_def matchAt_def stringsAt_def Let_def unchanged_cells
        matchStored_def addrOf_fresh score_category_reject)
next
  case cat: True
  show ?thesis
  proof (cases "m_match (calculateLocationMatch p j)")
    case loc: True
    have l: "reasonIfMatch (calculateLocationMatch p j)
               = [the (m_reason (calculateLocationMatch p j))]"
      using loc by (simp add: reasonIfMatch_def)
    show ?thesis
      using p j cat loc
      by (simp add: calculateJobMatchScore_store_def callMatcher_cells scoreRest_cells
          pushReasonIfSet_cells push_cells alloc_cells lookup_cells_new matcherAt_def
          matchAt_def stringsAt_def Let_def unchanged_cells matchStored_def addrOf_fresh
          score_pass_fields score_pass_reasons componentSum_def categoryReasons_reasonIfSet l)
  next
    case loc: False
    have l: "reasonIfMatch (calculateLocationMatch p j) = []"
      using loc by (simp add: reasonIfMatch_def)
    show ?thesis
    proof (cases "truthy (m_issue (calculateLocationMatch p j))")
      case True
      then show ?thesis
        using p j cat loc
        by (simp add: calculateJobMatchScore_store_def callMatcher_cells
            pushReasonIfSet_cells push_cells alloc_cells lookup_cells_new matcherAt_def
            matchAt_def stringsAt_def Let_def unchanged_cells matchStored_def addrOf_fresh
            score_location_reject categoryReasons_reasonIfSet)
    next
      case False
      then show ?thesis
        using p j cat loc
        by (simp add: calculateJobMatchScore_store_def callMatcher_cells scoreRest_cells
            pushReasonIfSet_cells push_cells alloc_cells lookup_cells_new matcherAt_def
            matchAt_def stringsAt_def Let_def unchanged_cells matchStored_def addrOf_fresh
            score_pass_fields score_pass_reasons componentSum_def categoryReasons_reasonIfSet l)
    qed
  qed
qed

lemma calculateJobMatchScore_store_spec:
  assumes "profileAt h pa = Some p" and "jobAt h ja = Some j"
  shows "\<exists>h' ma. calculateJobMatchScore_store h pa ja = Some (h', ma)
           \<and> unchanged h h' \<and> matchStored h h' ma (calculateJobMatchScore p j)"
  using calculateJobMatchScore_store_cells[OF assms] by (simp add: cells_Nil)


lemma unchanged_refl: "unchanged h h"
  by (simp add: unchanged_iff)

lemma unchanged_length:
  assumes "unchanged h h'"
  shows "length h \<le> length h'"
proof (rule ccontr)
  assume "\<not> length h \<le> length h'"
  then have less: "length h' < length h" by simp
  with assms have "lookup h' (length h') = lookup h (length h')"
    by (simp add: unchanged_iff)
  with less show False by (simp add: lookup_def)
qed

lemma unchanged_trans:
  assumes "unchanged h h1" and "unchanged h1 h2"
  shows "unchanged h h2"
  using assms unchanged_length[OF assms(1)] by (simp add: unchanged_iff)

lemma unchanged_append: "unchanged h (h @ xs)"
  by (simp add: unchanged_iff lookup_def nth_append)

lemma unchanged_lookup: "unchanged h h' \<Longrightarrow> lookup h a = Some x \<Longrightarrow> lookup h' a = Some x"
  by (auto simp: unchanged_iff lookup_def split: if_splits)

lemma profileAt_lookup: "profileAt h a = Some p \<longleftrightarrow> lookup h a = Some (ProfileObj p)"
  by (auto simp: profileAt_def split: option.splits obj.splits)

lemma jobAt_lookup: "jobAt h a = Some j \<longleftrightarrow> lookup h a = Some (JobObj j)"
  by (auto simp: jobAt_def split: option.splits obj.splits)

lemma stringsAt_lookup: "stringsAt h a = Some xs \<longleftrightarrow> lookup h a = Some (StringsObj xs)"
  by (auto simp: stringsAt_def split: option.splits obj.splits)

lemma matchAt_lookup: "matchAt h a = Some m \<longleftrightarrow> lookup h a = Some (MatchObj m)"
  by (auto simp: matchAt_def split: option.splits obj.splits)

lemma scoredAt_lookup: "scoredAt h a = Some sj \<longleftrightarrow> lookup h a = Some (ScoredObj sj)"
  by (auto simp: scoredAt_def split: option.splits obj.splits)

lemma arrayAt_lookup: "arrayAt h a = Some cs \<longleftrightarrow> lookup h a = Some (ArrayObj cs)"
  by (auto simp: arrayAt_def split: option.splits obj.splits)

lemma unchanged_profileAt: "unchanged h h' \<Longrightarrow> profileAt h a = Some p \<Longrightarrow> profileAt h' a = Some p"
  unfolding profileAt_lookup by (rule unchanged_lookup)

lemma unchanged_jobAt: "unchanged h h' \<Longrightarrow> jobAt h a = Some j \<Longrightarrow> jobAt h' a = Some j"
  unfolding jobAt_lookup by (rule unchanged_lookup)

lemma unchanged_stringsAt: "unchanged h h' \<Longrightarrow> stringsAt h a = Some xs \<Longrightarrow> stringsAt h' a = Some xs"
  unfolding stringsAt_lookup by (rule unchanged_lookup)

lemma unchanged_scoredAt: "unchanged h h' \<Longrightarrow> scoredAt h a = Some sj \<Longrightarrow> scoredAt h' a = Some sj"
  unfolding scoredAt_lookup by (rule unchanged_lookup)

lemma copyOfJob_unchanged:
  assumes "copyOfJob h c j r" and "unchanged h h'"
  shows "copyOfJob h' c j r"
proof -
  from assms(1) obtain sj where sj: "scoredAt h c = Some sj"
    by (auto simp: copyOfJob_def split: option.splits)
  with assms(1) have rs: "stringsAt h (matchReasonsRef sj) = Some (reasons r)"
    and iss: "stringsAt h (matchIssuesRef sj) = Some (issues r)"
    by (simp_all add: copyOfJob_def)
  show ?thesis
    using assms(1) sj unchanged_scoredAt[OF assms(2) sj] unchanged_stringsAt[OF assms(2) rs]
      unchanged_stringsAt[OF assms(2) iss]
    by (simp add: copyOfJob_def)
qed

lemma freshCopy_unchanged:
  assumes "freshCopy h0 h c" and "unchanged h h'"
  shows "freshCopy h0 h' c"
proof -
  from assms(1) obtain sj where sj: "scoredAt h c = Some sj"
    by (auto simp: freshCopy_def split: option.splits)
  show ?thesis
    using assms(1) sj unchanged_scoredAt[OF assms(2) sj] by (simp add: freshCopy_def)
qed

lemma freshCopy_older: "freshCopy h1 h' c \<Longrightarrow> length h \<le> length h1 \<Longrightarrow> freshCopy h h' c"
  by (auto simp: freshCopy_def split: option.splits)

lemma scoreJob_spec:
  assumes p: "profileAt h pa = Some p" and j: "jobAt h a = Some j"
  shows "\<exists>h' c. scoreJob h pa a = Some (h', c) \<and> unchanged h h' \<and> freshCopy h h' c
           \<and> copyOfJob h' c j (calculateJobMatchScore p j)"
proof -
  let ?r = "calculateJobMatchScore p j"
  from calculateJobMatchScore_store_spec[OF p j] obtain h1 ma where
    run: "calculateJobMatchScore_store h pa a = Some (h1, ma)"
    and u: "unchanged h h1" and st: "matchStored h h1 ma ?r"
    by blast
  from st obtain m where m: "matchAt h1 ma = Some m"
    by (auto simp: matchStored_def split: option.splits)
  with st have sc: "mr_score m = score ?r" and su: "mr_suitable m = suitable ?r"
    and fr: "length h \<le> mr_reasons m" and fi: "length h \<le> mr_issues m"
    and rs: "stringsAt h1 (mr_reasons m) = Some (reasons ?r)"
    and iss: "stringsAt h1 (mr_issues m) = Some (issues ?r)"
    by (simp_all add: matchStored_def)
  have j1: "jobAt h1 a = Some j" using u j by (rule unchanged_jobAt)
  define sj where "sj = \<lparr>job_title = job_title j, job_company = job_company j,
             job_location = job_location j, job_type = job_type j,
             job_description = job_description j, job_category = job_category j,
             job_isRemote = job_isRemote j, job_experienceLevel = job_experienceLevel j,
             job_postedDate = job_postedDate j,
             matchScoreRef = mr_score m, matchReasonsRef = mr_reasons m,
             matchIssuesRef = mr_issues m, suitableRef = mr_suitable m\<rparr>"
  let ?h' = "h1 @ [ScoredObj sj]"
  have eq: "scoreJob h pa a = Some (?h', length h1)"
    by (simp add: scoreJob_def run m j1 alloc_def sj_def)
  have u1: "unchanged h1 ?h'" by (rule unchanged_append)
  have u': "unchanged h ?h'" using u u1 by (rule unchanged_trans)
  have at: "scoredAt ?h' (length h1) = Some sj"
    by (simp add: scoredAt_def lookup_def)
  have len: "length h \<le> length h1" using u by (rule unchanged_length)
  have fresh: "freshCopy h ?h' (length h1)"
    unfolding freshCopy_def at using len fr fi by (simp add: sj_def)
  have copy: "copyOfJob ?h' (length h1) j ?r"
    unfolding copyOfJob_def at
    using unchanged_stringsAt[OF u1 rs] unchanged_stringsAt[OF u1 iss] sc su
    by (simp add: sj_def)
  from eq u' fresh copy show ?thesis by blast
qed

lemma mapScores_spec:
  assumes "profileAt h pa = Some p"
    and "list_all (\<lambda>a. case jobAt h a of Some j \<Rightarrow> True | None \<Rightarrow> False) as"
  shows "\<exists>h' cs. mapScores h pa as = Some (h', cs) \<and> unchanged h h'
           \<and> list_all2 (\<lambda>a c. freshCopy h h' c
                 \<and> (\<exists>j. jobAt h a = Some j \<and> copyOfJob h' c j (calculateJobMatchScore p j)))
               as cs"
  using assms
proof (induction as arbitrary: h)
  case Nil
  then show ?case by (simp add: unchanged_refl)
next
  case (Cons a as)
  from Cons.prems(2) obtain j where j: "jobAt h a = Some j"
    by (auto split: option.splits)
  from scoreJob_spec[OF Cons.prems(1) j] obtain h1 c where
    run: "scoreJob h pa a = Some (h1, c)" and u: "unchanged h h1"
    and fresh: "freshCopy h h1 c" and copy: "copyOfJob h1 c j (calculateJobMatchScore p j)"
    by blast
  have p1: "profileAt h1 pa = Some p" using u Cons.prems(1) by (rule unchanged_profileAt)
  have all1: "list_all (\<lambda>a. case jobAt h1 a of Some j \<Rightarrow> True | None \<Rightarrow> False) as"
    unfolding list_all_iff
  proof
    fix b assume "b \<in> set as"
    with Cons.prems(2) obtain k where "jobAt h b = Some k"
      by (auto simp: list_all_iff split: option.splits)
    with u have "jobAt h1 b = Some k" by (rule unchanged_jobAt)
    then show "case jobAt h1 b of Some j \<Rightarrow> True | None \<Rightarrow> False" by simp
  qed
  from Cons.IH[OF p1 all1] obtain h2 cs where
    rec: "mapScores h1 pa as = Some (h2, cs)" and u2: "unchanged h1 h2"
    and each: "list_all2 (\<lambda>a c. freshCopy h1 h2 c
                 \<and> (\<exists>j. jobAt h1 a = Some j \<and> copyOfJob h2 c j (calculateJobMatchScore p j)))
               as cs"
    by blast
  have len: "length h \<le> length h1" using u by (rule unchanged_length)
  have each': "list_all2 (\<lambda>a c. freshCopy h h2 c
                 \<and> (\<exists>j. jobAt h a = Some j \<and> copyOfJob h2 c j (calculateJobMatchScore p j)))
               as cs"
    using each
  proof (rule list.rel_mono_strong)
    fix b d
    assume "b \<in> set as" and "d \<in> set cs"
      and bd: "freshCopy h1 h2 d
       \<and> (\<exists>j. jobAt h1 b = Some j \<and> copyOfJob h2 d j (calculateJobMatchScore p j))"
    then obtain k where k1: "jobAt h1 b = Some k"
      and ck: "copyOfJob h2 d k (calculateJobMatchScore p k)"
      by blast
    from \<open>b \<in> set as\<close> Cons.prems(2) obtain k' where k': "jobAt h b = Some k'"
      by (auto simp: list_all_iff split: option.splits)
    with u have "jobAt h1 b = Some k'" by (rule unchanged_jobAt)
    with k1 have "k' = k" by simp
    with k' ck bd len
    show "freshCopy h h2 d
       \<and> (\<exists>j. jobAt h b = Some j \<and> copyOfJob h2 d j (calculateJobMatchScore p j))"
      by (auto intro: freshCopy_older)
  qed
  have head: "freshCopy h h2 c \<and> copyOfJob h2 c j (calculateJobMatchScore p j)"
    using fresh copy u2 by (auto intro: freshCopy_unchanged copyOfJob_unchanged)
  have "mapScores h pa (a # as) = Some (h2, c # cs)"
    by (simp add: run rec)
  moreover have "unchanged h h2" using u u2 by (rule unchanged_trans)
  ultimately show ?case
    using head each' j by auto
qed


lemma set_sortRefs: "set (sortRefs h sb cs) = set cs"
  by (simp add: sortRefs_def)

lemma set_slice0: "set (slice0 n xs) \<subseteq> set xs"
  unfolding slice0_def by (rule set_take_subset)

lemma getMatchedJobs_store_shape:
  fixes opts h1 cs ordered
  defines "ms \<equiv> (case minScore opts of None \<Rightarrow> 40 | Some v \<Rightarrow> v)"
    and "mr \<equiv> (case maxResults opts of None \<Rightarrow> 50 | Some v \<Rightarrow> v)"
    and "sb \<equiv> (case sortBy opts of None \<Rightarrow> ''score'' | Some v \<Rightarrow> v)"
  defines "kept \<equiv> filter (passesAt (h1 @ [ArrayObj cs]) ms) cs"
  defines "ordered \<equiv> sortRefs (h1 @ [ArrayObj cs, ArrayObj kept]) sb kept"
  assumes m: "mapScores h pa as = Some (h1, cs)" and ja: "arrayAt h ja = Some as"
  shows "getMatchedJobs_store h pa ja opts =
          Some (h1 @ [ArrayObj cs, ArrayObj ordered, ArrayObj (slice0 mr ordered)],
                \<lparr>jobsRef = length h1 + 2, totalMatchesRef = length (slice0 mr ordered),
                 totalJobsRef = length as,
                 matchRateRef = jsApply mathRound
                   (jsApply (\<lambda>x. x * 100) (jsDivide (length (slice0 mr ordered)) (length as)))\<rparr>)"
proof -
  from ja have b: "ja < length h" "h ! ja = ArrayObj as"
    by (auto simp: arrayAt_lookup lookup_def split: if_splits)
  show ?thesis
    unfolding getMatchedJobs_store_def Let_def alloc_def ordered_def kept_def ms_def mr_def
      sb_def
    by (simp add: m b arrayAt_def lookup_def nth_append list_update_append)
qed

lemma copyOfJob_scoredJobAt:
  assumes "copyOfJob h c j r"
  shows "scoredJobAt h c = Some (withMatch j r)"
proof -
  from assms obtain sj where sj: "scoredAt h c = Some sj"
    by (auto simp: copyOfJob_def split: option.splits)
  with assms show ?thesis
    by (simp add: copyOfJob_def scoredJobAt_def withMatch_def job.extend_def
        scoredJob.fields_def)
qed

lemma copyOfJob_keys:
  assumes "copyOfJob h c j r"
  shows "passesAt h ms c = passes ms (withMatch j r)"
    and "matchScoreAt h c = matchScore (withMatch j r)"
    and "postedDateAt h c = job_postedDate (withMatch j r)"
proof -
  from assms obtain sj where sj: "scoredAt h c = Some sj"
    by (auto simp: copyOfJob_def split: option.splits)
  with assms show "passesAt h ms c = passes ms (withMatch j r)"
    and "matchScoreAt h c = matchScore (withMatch j r)"
    and "postedDateAt h c = job_postedDate (withMatch j r)"
    by (simp_all add: copyOfJob_def passesAt_def passes_def matchScoreAt_def postedDateAt_def
        withMatch_def job.extend_def scoredJob.fields_def)
qed

lemma copies_values:
  assumes "list_all2 (\<lambda>a c. \<exists>j. jobAt h a = Some j \<and> scoredJobAt h1 c = Some (f j)) as cs"
  shows "map (scoredJobAt h1) cs = map (\<lambda>j. Some (f j)) (readJobs h as)"
  using assms
  by (induction rule: list_all2_induct) (auto simp: readJobs_def map_filter_simps)

lemma insort_key_agree:
  assumes "f x = g x" and "\<forall>y \<in> set ys. f y = g y"
  shows "insort_key f x ys = insort_key g x ys"
  using assms by (induction ys) auto

lemma sort_key_agree:
  assumes "\<forall>x \<in> set xs. f x = g x"
  shows "sort_key f xs = sort_key g xs"
  using assms
proof (induction xs)
  case Nil
  then show ?case by simp
next
  case (Cons x xs)
  then have "sort_key f xs = sort_key g xs" by simp
  moreover have "insort_key f x (sort_key g xs) = insort_key g x (sort_key g xs)"
    using Cons.prems by (intro insort_key_agree) auto
  ultimately show ?case by simp
qed

lemma map_insort_key:
  "map g (insort_key (\<lambda>c. k (g c)) x ys) = insort_key k (g x) (map g ys)"
  by (induction ys) auto

lemma map_sort_key: "map g (sort_key (\<lambda>c. k (g c)) xs) = sort_key k (map g xs)"
  by (induction xs) (auto simp: map_insort_key)

lemma map_slice0: "map g (slice0 n xs) = slice0 n (map g xs)"
  by (simp add: slice0_def take_map)

lemma map_filter_comp: "map g (filter (\<lambda>c. P (g c)) xs) = filter P (map g xs)"
  by (induction xs) auto

lemma getMatchedJobs_store_spec:
  assumes wf: "wellFormed h pa p ja as"
  shows "\<exists>h' r cs. getMatchedJobs_store h pa ja opts = Some (h', r)
           \<and> unchanged h h' \<and> length h \<le> jobsRef r
           \<and> arrayAt h' (jobsRef r) = Some cs
           \<and> (\<forall>c \<in> set cs. freshCopy h h' c
                 \<and> (\<exists>a \<in> set as. \<exists>j. jobAt h a = Some j
                        \<and> copyOfJob h' c j (calculateJobMatchScore p j)))
           \<and> map (scoredJobAt h') cs = map Some (jobs (getMatchedJobs p (readJobs h as) opts))
           \<and> totalMatchesRef r = totalMatches (getMatchedJobs p (readJobs h as) opts)
           \<and> totalJobsRef r = totalJobs (getMatchedJobs p (readJobs h as) opts)
           \<and> matchRateRef r = matchRate (getMatchedJobs p (readJobs h as) opts)"
proof -
  define ms where "ms = (case minScore opts of None \<Rightarrow> 40 | Some v \<Rightarrow> v)"
  define mr where "mr = (case maxResults opts of None \<Rightarrow> 50 | Some v \<Rightarrow> v)"
  define sb where "sb = (case sortBy opts of None \<Rightarrow> ''score'' | Some v \<Rightarrow> v)"
  from wf have p: "profileAt h pa = Some p" and ja: "arrayAt h ja = Some as"
    and all: "list_all (\<lambda>a. case jobAt h a of Some j \<Rightarrow> True | None \<Rightarrow> False) as"
    by (simp_all add: wellFormed_def)
  from mapScores_spec[OF p all] obtain h1 cs where
    m: "mapScores h pa as = Some (h1, cs)" and u1: "unchanged h h1"
    and each: "list_all2 (\<lambda>a c. freshCopy h h1 c
                 \<and> (\<exists>j. jobAt h a = Some j \<and> copyOfJob h1 c j (calculateJobMatchScore p j)))
               as cs"
    by blast
  define kept where "kept = filter (passesAt (h1 @ [ArrayObj cs]) ms) cs"
  define ordered where "ordered = sortRefs (h1 @ [ArrayObj cs, ArrayObj kept]) sb kept"
  define h' where "h' = h1 @ [ArrayObj cs, ArrayObj ordered, ArrayObj (slice0 mr ordered)]"
  define r where "r = \<lparr>jobsRef = length h1 + 2, totalMatchesRef = length (slice0 mr ordered),
                 totalJobsRef = length as,
                 matchRateRef = jsApply mathRound
                   (jsApply (\<lambda>x. x * 100) (jsDivide (length (slice0 mr ordered)) (length as)))\<rparr>"
  define js where "js = map (\<lambda>j. withMatch j (calculateJobMatchScore p j)) (readJobs h as)"
  define g where "g = (\<lambda>c. the (scoredJobAt h1 c))"
  have run: "getMatchedJobs_store h pa ja opts = Some (h', r)"
    using getMatchedJobs_store_shape[OF m ja, of opts]
    by (simp add: h'_def r_def ordered_def kept_def ms_def mr_def sb_def)
  have u': "unchanged h1 h'" unfolding h'_def by (rule unchanged_append)
  have u: "unchanged h h'" using u1 u' by (rule unchanged_trans)
  have len: "length h \<le> length h1" using u1 by (rule unchanged_length)
  have arr: "arrayAt h' (jobsRef r) = Some (slice0 mr ordered)"
    by (simp add: h'_def r_def arrayAt_def lookup_def nth_append)
  have kept_sub: "set kept \<subseteq> set cs" by (auto simp: kept_def)
  have sliced_sub: "set (slice0 mr ordered) \<subseteq> set cs"
    using set_slice0[of mr ordered] kept_sub by (auto simp: ordered_def set_sortRefs)
  have at: "\<exists>a \<in> set as. \<exists>j. jobAt h a = Some j \<and> freshCopy h h1 c
              \<and> copyOfJob h1 c j (calculateJobMatchScore p j)"
    if "c \<in> set cs" for c
  proof -
    from that obtain i where i: "i < length cs" "cs ! i = c" by (auto simp: in_set_conv_nth)
    from each have "length as = length cs" by (rule list_all2_lengthD)
    with i each have "as ! i \<in> set as" and "freshCopy h h1 c
       \<and> (\<exists>j. jobAt h (as ! i) = Some j \<and> copyOfJob h1 c j (calculateJobMatchScore p j))"
      by (auto simp: list_all2_conv_all_nth)
    then show ?thesis by blast
  qed
  have copies: "\<forall>c \<in> set (slice0 mr ordered). freshCopy h h' c
                 \<and> (\<exists>a \<in> set as. \<exists>j. jobAt h a = Some j
                        \<and> copyOfJob h' c j (calculateJobMatchScore p j))"
  proof
    fix c assume "c \<in> set (slice0 mr ordered)"
    with sliced_sub have "c \<in> set cs" by blast
    from at[OF this] obtain a j where "a \<in> set as" "jobAt h a = Some j"
      "freshCopy h h1 c" "copyOfJob h1 c j (calculateJobMatchScore p j)"
      by blast
    with u' show "freshCopy h h' c
                 \<and> (\<exists>a \<in> set as. \<exists>j. jobAt h a = Some j
                        \<and> copyOfJob h' c j (calculateJobMatchScore p j))"
      by (blast intro: freshCopy_unchanged copyOfJob_unchanged)
  qed
  have vals: "map (scoredJobAt h1) cs = map Some js"
  proof -
    have "list_all2 (\<lambda>a c. \<exists>j. jobAt h a = Some j
            \<and> scoredJobAt h1 c = Some (withMatch j (calculateJobMatchScore p j))) as cs"
      using each by (rule list.rel_mono_strong) (auto intro: copyOfJob_scoredJobAt)
    from copies_values[OF this] show ?thesis by (simp add: js_def comp_def)
  qed
  have lenj: "length js = length as"
  proof -
    have "length js = length (map (scoredJobAt h1) cs)" unfolding vals by simp
    also have "\<dots> = length as" using list_all2_lengthD[OF each] by simp
    finally show ?thesis .
  qed
  have gs: "map g cs = js"
  proof -
    have "map g cs = map the (map (scoredJobAt h1) cs)" by (simp add: g_def comp_def)
    also have "\<dots> = js" unfolding vals by (simp add: comp_def)
    finally show ?thesis .
  qed
  have keys: "passesAt (h1 @ xs) ms c = passes ms (g c)
        \<and> matchScoreAt (h1 @ xs) c = matchScore (g c)
        \<and> postedDateAt (h1 @ xs) c = job_postedDate (g c)
        \<and> scoredJobAt (h1 @ xs) c = Some (g c)"
    if "c \<in> set cs" for c xs
  proof -
    from at[OF that] obtain j where c1: "copyOfJob h1 c j (calculateJobMatchScore p j)"
      by blast
    then have gc: "g c = withMatch j (calculateJobMatchScore p j)"
      by (simp add: g_def copyOfJob_scoredJobAt)
    from c1 have "copyOfJob (h1 @ xs) c j (calculateJobMatchScore p j)"
      using unchanged_append by (rule copyOfJob_unchanged)
    then show ?thesis
      unfolding gc by (simp add: copyOfJob_keys copyOfJob_scoredJobAt)
  qed
  have kept_eq: "kept = filter (\<lambda>c. passes ms (g c)) cs"
    unfolding kept_def by (rule filter_cong) (simp_all add: keys)
  have kept_js: "map g kept = filter (passes ms) js"
    unfolding kept_eq gs[symmetric] by (rule map_filter_comp)
  have ordered_js: "map g ordered = sortJobs sb (map g kept)"
  proof (cases "sb = ''score''")
    case True
    have "ordered = sort_key (\<lambda>c. - matchScoreAt (h1 @ [ArrayObj cs, ArrayObj kept]) c) kept"
      using True by (simp add: ordered_def sortRefs_def)
    also have "\<dots> = sort_key (\<lambda>c. - matchScore (g c)) kept"
      using kept_sub by (intro sort_key_agree) (auto simp: keys)
    finally have "map g ordered = sort_key (\<lambda>sj. - matchScore sj) (map g kept)"
      using map_sort_key[of g "\<lambda>sj. - matchScore sj" kept] by simp
    then show ?thesis using True by (simp add: sortJobs_def)
  next
    case False
    have "ordered = sort_key (\<lambda>c. - postedDateAt (h1 @ [ArrayObj cs, ArrayObj kept]) c) kept"
      using False by (simp add: ordered_def sortRefs_def)
    also have "\<dots> = sort_key (\<lambda>c. - job_postedDate (g c)) kept"
      using kept_sub by (intro sort_key_agree) (auto simp: keys)
    finally have "map g ordered = sort_key (\<lambda>sj. - job_postedDate sj) (map g kept)"
      using map_sort_key[of g "\<lambda>sj. - job_postedDate sj" kept] by simp
    then show ?thesis using False by (simp add: sortJobs_def)
  qed
  have lenr: "length (readJobs h as) = length as"
    using lenj by (simp add: js_def)
  have pure: "getMatchedJobs p (readJobs h as) opts =
                \<lparr>jobs = slice0 mr (sortJobs sb (filter (passes ms) js)),
                 totalMatches = length (slice0 mr (sortJobs sb (filter (passes ms) js))),
                 totalJobs = length as,
                 matchRate = jsApply mathRound (jsApply (\<lambda>x. x * 100)
                   (jsDivide (length (slice0 mr (sortJobs sb (filter (passes ms) js))))
                      (length as)))\<rparr>"
    by (simp add: getMatchedJobs_def Let_def ms_def mr_def sb_def js_def lenr)
  have sliced_js: "map g (slice0 mr ordered) = slice0 mr (sortJobs sb (filter (passes ms) js))"
    by (simp add: map_slice0 ordered_js kept_js)
  have deref: "map (scoredJobAt h') (slice0 mr ordered) = map Some (map g (slice0 mr ordered))"
    unfolding h'_def using sliced_sub by (auto simp: keys)
  have lens: "length (slice0 mr (sortJobs sb (filter (passes ms) js))) = length (slice0 mr ordered)"
    unfolding sliced_js[symmetric] by simp
  have "length h \<le> jobsRef r" using len by (simp add: r_def)
  moreover have "map (scoredJobAt h') (slice0 mr ordered)
                   = map Some (jobs (getMatchedJobs p (readJobs h as) opts))"
    using deref by (simp add: sliced_js pure)
  moreover have "totalMatchesRef r = totalMatches (getMatchedJobs p (readJobs h as) opts)"
    "totalJobsRef r = totalJobs (getMatchedJobs p (readJobs h as) opts)"
    "matchRateRef r = matchRate (getMatchedJobs p (readJobs h as) opts)"
    by (simp_all add: r_def pure lens)
  ultimately show ?thesis
    using run u arr copies by blast
qed


text \<open>
  C8. Neither function writes to the profile or to a job of the collection. On a store in
  which \<open>pa\<close> refers to the profile and \<open>ja\<close> to the array of jobs, a call of
  \<open>calculateJobMatchScore\<close> on a job of the array returns, and so does a call of
  \<open>getMatchedJobs\<close>; after either, every cell that existed before the call (the profile,
  each job, the array of jobs) holds what it held. The result object of
  \<open>calculateJobMatchScore\<close> and its two arrays are cells made during the call, and they
  hold the score, the suitability, the reasons and the issues that the function on values
  computes. The array that \<open>getMatchedJobs\<close> returns is a cell made during the call; each
  reference in it leads to an object made during the call that has every field of one job
  of the collection, with that job's value, and the match score, suitability, reasons and
  issues of that job for the profile; read as values, these are the jobs that the function
  on values returns, in its order, and the two counts are its counts.
\<close>

theorem inputs_unchanged:
  assumes "wellFormed h pa p ja as"
  shows "(\<forall>a \<in> set as. \<exists>j h' ma. jobAt h a = Some j
            \<and> calculateJobMatchScore_store h pa a = Some (h', ma)
            \<and> unchanged h h' \<and> matchStored h h' ma (calculateJobMatchScore p j))
       \<and> (\<exists>h' r cs. getMatchedJobs_store h pa ja opts = Some (h', r)
            \<and> unchanged h h' \<and> length h \<le> jobsRef r
            \<and> arrayAt h' (jobsRef r) = Some cs
            \<and> (\<forall>c \<in> set cs. freshCopy h h' c
                  \<and> (\<exists>a \<in> set as. \<exists>j. jobAt h a = Some j
                         \<and> copyOfJob h' c j (calculateJobMatchScore p j)))
            \<and> map (scoredJobAt h') cs = map Some (jobs (getMatchedJobs p (readJobs h as) opts))
            \<and> totalMatchesRef r = totalMatches (getMatchedJobs p (readJobs h as) opts)
            \<and> totalJobsRef r = totalJobs (getMatchedJobs p (readJobs h as) opts))"
proof
  from assms have p: "profileAt h pa = Some p"
    and all: "list_all (\<lambda>a. case jobAt h a of Some j \<Rightarrow> True | None \<Rightarrow> False) as"
    by (simp_all add: wellFormed_def)
  show "\<forall>a \<in> set as. \<exists>j h' ma. jobAt h a = Some j
            \<and> calculateJobMatchScore_store h pa a = Some (h', ma)
            \<and> unchanged h h' \<and> matchStored h h' ma (calculateJobMatchScore p j)"
  proof
    fix a assume "a \<in> set as"
    with all obtain j where j: "jobAt h a = Some j"
      by (auto simp: list_all_iff split: option.splits)
    from calculateJobMatchScore_store_spec[OF p j] j
    show "\<exists>j h' ma. jobAt h a = Some j
            \<and> calculateJobMatchScore_store h pa a = Some (h', ma)
            \<and> unchanged h h' \<and> matchStored h h' ma (calculateJobMatchScore p j)"
      by blast
  qed
  show "\<exists>h' r cs. getMatchedJobs_store h pa ja opts = Some (h', r)
            \<and> unchanged h h' \<and> length h \<le> jobsRef r
            \<and> arrayAt h' (jobsRef r) = Some cs
            \<and> (\<forall>c \<in> set cs. freshCopy h h' c
                  \<and> (\<exists>a \<in> set as. \<exists>j. jobAt h a = Some j
                         \<and> copyOfJob h' c j (calculateJobMatchScore p j)))
            \<and> map (scoredJobAt h') cs = map Some (jobs (getMatchedJobs p (readJobs h as) opts))
            \<and> totalMatchesRef r = totalMatches (getMatchedJobs p (readJobs h as) opts)
            \<and> totalJobsRef r = totalJobs (getMatchedJobs p (readJobs h as) opts)"
    using getMatchedJobs_store_spec[OF assms, of opts] by blast
qed

lemma wellFormed_storeA: "wellFormed storeA 0 profileA 3 [1, 2]"
  by (simp add: wellFormed_def storeA_def profileAt_def arrayAt_def jobAt_def lookup_def)

lemma run_storeA:
  "map_option (\<lambda>(h', r). (r, arrayAt h' 24, scoredAt h' 15, stringsAt h' 4, stringsAt h' 5))
     (getMatchedJobs_store storeA 0 3 optsOne)
   = Some (\<lparr>jobsRef = 24, totalMatchesRef = 1, totalJobsRef = 2, matchRateRef = Finite 50\<rparr>,
           Some [15],
           Some \<lparr>job_title = ''Frontend Developer (React)'', job_company = ''Acme'',
                 job_location = ''Bratislava, Slovakia'', job_type = ''Frontend'',
                 job_description = Some ''React, JavaScript, HTML, CSS'',
                 job_category = None, job_isRemote = False,
                 job_experienceLevel = Some ''Mid'', job_postedDate = 0,
                 matchScoreRef = 100, matchReasonsRef = 4, matchIssuesRef = 5,
                 suitableRef = True\<rparr>,
           Some [''Frontend position matches your career path'',
                 ''Location Bratislava, Slovakia is in your preferred areas'',
                 sparklesSign @ '' Flexible with work arrangement'',
                 ''2 of your primary skills match: React, JavaScript'',
                 ''Experience level matches (Mid position, you're mid)'',
                 ''Frontend matches your interests''],
           Some [])"
  by code_simp

lemma run_storeA_rejected:
  "calculateJobMatchScore_store storeA 0 2 =
     Some (storeA @ [StringsObj [], StringsObj [],
                     MatcherObj \<lparr>m_score = 0, m_match = False, m_reason = None,
                        m_issue = Some ''Job category (finance) doesn't match your desired field (tech)''\<rparr>,
                     StringsObj [''Job category (finance) doesn't match your desired field (tech)''],
                     MatchObj \<lparr>mr_score = 0, mr_reasons = 4, mr_issues = 7, mr_suitable = False\<rparr>],
           8)"
  by code_simp

theorem inputs_unchanged_witness:
  "wellFormed storeA 0 profileA 3 [1, 2]
   \<and> (\<exists>h' r. getMatchedJobs_store storeA 0 3 optsOne = Some (h', r)
         \<and> lookup h' 0 = Some (ProfileObj profileA)
         \<and> lookup h' 1 = Some (JobObj jobA)
         \<and> lookup h' 2 = Some (JobObj jobB)
         \<and> lookup h' 3 = Some (ArrayObj [1, 2])
         \<and> r = \<lparr>jobsRef = 24, totalMatchesRef = 1, totalJobsRef = 2, matchRateRef = Finite 50\<rparr>
         \<and> arrayAt h' 24 = Some [15]
         \<and> scoredAt h' 15 =
              Some \<lparr>job_title = ''Frontend Developer (React)'', job_company = ''Acme'',
                    job_location = ''Bratislava, Slovakia'', job_type = ''Frontend'',
                    job_description = Some ''React, JavaScript, HTML, CSS'',
                    job_category = None, job_isRemote = False,
                    job_experienceLevel = Some ''Mid'', job_postedDate = 0,
                    matchScoreRef = 100, matchReasonsRef = 4, matchIssuesRef = 5,
                    suitableRef = True\<rparr>
         \<and> stringsAt h' 4 =
              Some [''Frontend position matches your career path'',
                    ''Location Bratislava, Slovakia is in your preferred areas'',
                    sparklesSign @ '' Flexible with work arrangement'',
                    ''2 of your primary skills match: React, JavaScript'',
                    ''Experience level matches (Mid position, you're mid)'',
                    ''Frontend matches your interests'']
         \<and> stringsAt h' 5 = Some [])
   \<and> (\<exists>h' ma. calculateJobMatchScore_store storeA 0 2 = Some (h', ma)
         \<and> lookup h' 0 = Some (ProfileObj profileA)
         \<and> lookup h' 2 = Some (JobObj jobB)
         \<and> matchAt h' ma
              = Some \<lparr>mr_score = 0, mr_reasons = 4, mr_issues = 7, mr_suitable = False\<rparr>
         \<and> stringsAt h' 4 = Some []
         \<and> stringsAt h' 7
              = Some [''Job category (finance) doesn't match your desired field (tech)''])"
proof -
  from inputs_unchanged[OF wellFormed_storeA, of optsOne] obtain h' r where
    run: "getMatchedJobs_store storeA 0 3 optsOne = Some (h', r)"
    and u: "unchanged storeA h'"
    by blast
  from run_storeA
  have r: "r = \<lparr>jobsRef = 24, totalMatchesRef = 1, totalJobsRef = 2, matchRateRef = Finite 50\<rparr>"
    and arr: "arrayAt h' 24 = Some [15]"
    and sc: "scoredAt h' 15 =
              Some \<lparr>job_title = ''Frontend Developer (React)'', job_company = ''Acme'',
                    job_location = ''Bratislava, Slovakia'', job_type = ''Frontend'',
                    job_description = Some ''React, JavaScript, HTML, CSS'',
                    job_category = None, job_isRemote = False,
                    job_experienceLevel = Some ''Mid'', job_postedDate = 0,
                    matchScoreRef = 100, matchReasonsRef = 4, matchIssuesRef = 5,
                    suitableRef = True\<rparr>"
    and rs: "stringsAt h' 4 =
              Some [''Frontend position matches your career path'',
                    ''Location Bratislava, Slovakia is in your preferred areas'',
                    sparklesSign @ '' Flexible with work arrangement'',
                    ''2 of your primary skills match: React, JavaScript'',
                    ''Experience level matches (Mid position, you're mid)'',
                    ''Frontend matches your interests'']"
    and iss: "stringsAt h' 5 = Some []"
    unfolding run by simp_all
  from u have "lookup h' 0 = lookup storeA 0" "lookup h' 1 = lookup storeA 1"
    "lookup h' 2 = lookup storeA 2" "lookup h' 3 = lookup storeA 3"
    by (simp_all add: unchanged_iff storeA_def)
  then have old: "lookup h' 0 = Some (ProfileObj profileA)" "lookup h' 1 = Some (JobObj jobA)"
    "lookup h' 2 = Some (JobObj jobB)" "lookup h' 3 = Some (ArrayObj [1, 2])"
    by (simp_all add: lookup_def storeA_def)
  have first: "\<exists>h' r. getMatchedJobs_store storeA 0 3 optsOne = Some (h', r)
         \<and> lookup h' 0 = Some (ProfileObj profileA)
         \<and> lookup h' 1 = Some (JobObj jobA)
         \<and> lookup h' 2 = Some (JobObj jobB)
         \<and> lookup h' 3 = Some (ArrayObj [1, 2])
         \<and> r = \<lparr>jobsRef = 24, totalMatchesRef = 1, totalJobsRef = 2, matchRateRef = Finite 50\<rparr>
         \<and> arrayAt h' 24 = Some [15]
         \<and> scoredAt h' 15 =
              Some \<lparr>job_title = ''Frontend Developer (React)'', job_company = ''Acme'',
                    job_location = ''Bratislava, Slovakia'', job_type = ''Frontend'',
                    job_description = Some ''React, JavaScript, HTML, CSS'',
                    job_category = None, job_isRemote = False,
                    job_experienceLevel = Some ''Mid'', job_postedDate = 0,
                    matchScoreRef = 100, matchReasonsRef = 4, matchIssuesRef = 5,
                    suitableRef = True\<rparr>
         \<and> stringsAt h' 4 =
              Some [''Frontend position matches your career path'',
                    ''Location Bratislava, Slovakia is in your preferred areas'',
                    sparklesSign @ '' Flexible with work arrangement'',
                    ''2 of your primary skills match: React, JavaScript'',
                    ''Experience level matches (Mid position, you're mid)'',
                    ''Frontend matches your interests'']
         \<and> stringsAt h' 5 = Some []"
    using run old r arr sc rs iss by blast
  have second: "\<exists>h' ma. calculateJobMatchScore_store storeA 0 2 = Some (h', ma)
         \<and> lookup h' 0 = Some (ProfileObj profileA)
         \<and> lookup h' 2 = Some (JobObj jobB)
         \<and> matchAt h' ma
              = Some \<lparr>mr_score = 0, mr_reasons = 4, mr_issues = 7, mr_suitable = False\<rparr>
         \<and> stringsAt h' 4 = Some []
         \<and> stringsAt h' 7
              = Some [''Job category (finance) doesn't match your desired field (tech)'']"
    unfolding run_storeA_rejected
    by (simp add: storeA_def lookup_def matchAt_def stringsAt_def)
  from wellFormed_storeA first second show ?thesis by blast
qed

end
